theory Spec2Isabelle
  imports Main "HOL-Library.Sublist"
begin

section \<open>The bearer token\<close>

text \<open>
  \<open>jwt.decode(accessToken.substring(7))\<close>: either \<open>null\<close> or the payload, whose
  \<open>customer_id\<close> may be missing.
\<close>

datatype token = Undecodable | Payload "nat option"

text \<open>JavaScript truthiness of \<open>decodedToken.customer_id\<close>: \<open>undefined\<close> and \<open>0\<close> are falsy.\<close>

fun truthy :: "nat option \<Rightarrow> bool" where
  "truthy None = False"
| "truthy (Some n) = (n \<noteq> 0)"

text \<open>An auto-increment key: larger than every key in the table.\<close>

definition next_id :: "nat list \<Rightarrow> nat" where
  "next_id ids = Suc (fold max ids 0)"

section \<open>Tables\<close>

record cart_row =
  item_id :: nat
  cart_id :: string
  product_id :: nat
  attributes :: string
  quantity :: int
  added_on :: nat

record product_row =
  p_product_id :: nat
  p_name :: string
  p_description :: string
  p_price :: int
  p_discounted_price :: int
  p_image :: string
  p_thumbnail :: string

text \<open>
  An order row holds what \<open>createOrder\<close> passes to \<open>Order.upsert\<close>. The handler
  never writes \<open>total_amount\<close>: \<open>None\<close> stands for the column's default.
\<close>

record order_row =
  o_order_id :: nat
  o_customer_id :: "nat option"
  o_cart_id :: string
  o_shipping_id :: nat
  o_tax_id :: nat
  o_total_amount :: "int option"

record order_detail_row =
  od_pk :: nat
  od_order_id :: nat
  od_product_id :: nat
  od_attributes :: string
  od_product_name :: string
  od_quantity :: int
  od_unit_cost :: int

record category_row =
  cat_category_id :: nat
  cat_department_id :: nat

record product_category_row =
  pc_product_id :: nat
  pc_category_id :: nat

record review_row =
  rv_review_id :: nat
  rv_customer_id :: nat
  rv_product_id :: nat
  rv_review :: string
  rv_rating :: int
  rv_created_on :: nat

record customer_row =
  cu_customer_id :: nat
  cu_name :: string
  cu_email :: string
  cu_password :: string
  cu_address_1 :: "string option"
  cu_address_2 :: "string option"
  cu_city :: "string option"
  cu_region :: "string option"
  cu_postal_code :: "string option"
  cu_shipping_region_id :: "nat option"
  cu_credit_card :: "string option"
  cu_day_phone :: "string option"
  cu_eve_phone :: "string option"
  cu_mob_phone :: "string option"

record db =
  shopping_cart :: "cart_row list"
  product :: "product_row list"
  orders :: "order_row list"
  order_detail :: "order_detail_row list"
  category :: "category_row list"
  product_category :: "product_category_row list"
  review :: "review_row list"
  customer :: "customer_row list"

section \<open>Responses\<close>

record cart_line =
  l_item_id :: nat
  l_cart_id :: string
  l_product_id :: nat
  l_attributes :: string
  l_quantity :: int

record cart_item =
  i_item_id :: nat
  i_cart_id :: string
  i_name :: string
  i_attributes :: string
  i_product_id :: nat
  i_image :: string
  i_price :: int
  i_discounted_price :: int
  i_quantity :: int
  i_subtotal :: int

record product_view =
  v_product_id :: nat
  v_name :: string
  v_description :: string
  v_price :: int
  v_discounted_price :: int
  v_thumbnail :: string

record pagination_meta =
  currentPage :: int
  currentPageSize :: int
  totalPages :: "int option"
  totalRecords :: nat

record profile =
  pr_customer_id :: nat
  pr_name :: string
  pr_email :: string
  pr_address_1 :: "string option"
  pr_address_2 :: "string option"
  pr_city :: "string option"
  pr_region :: "string option"
  pr_postal_code :: "string option"
  pr_shipping_region_id :: "nat option"
  pr_credit_card :: "string option"
  pr_day_phone :: "string option"
  pr_eve_phone :: "string option"
  pr_mob_phone :: "string option"

text \<open>
  \<open>`Bearer ${jwt.sign({customer_id}, SECRET_KEY, {expiresIn})}`\<close>: signing is an
  outside capability, so the credential is the pair it encodes.
\<close>

datatype access_token = Bearer nat string

text \<open>
  The bodies the handlers send: a bare string, \<open>{message}\<close>,
  \<open>{error: {status, message}}\<close>, and the payloads of the successful calls.
\<close>

datatype body =
    Text string
  | Message string
  | Error nat string
  | ProductMissing nat
  | Line "cart_line option"
  | Items "cart_item list"
  | OrderId nat
  | OrderItems nat order_detail_row
  | Paginated pagination_meta "product_view list"
  | Rows "product_view list"
  | CategoryRows "product_view option list"
  | DepartmentRows "product_view option list list"
  | Sent bool
  | Auth profile access_token string

text \<open>
  A handler answers with \<open>res.status(s).json(b)\<close> (or \<open>send\<close>), hands an error
  caught by its \<open>try\<close> block to \<open>next\<close>, or throws before the \<open>try\<close> block is
  entered (reading \<open>customer_id\<close> of the \<open>null\<close> that \<open>jwt.decode\<close> returns
  for a string that is no token).
\<close>

datatype response = Response nat body | NextError | TypeError

section \<open>The shopping cart controller\<close>

subsection \<open>The ORM calls on the cart table\<close>

text \<open>
  \<open>ShoppingCart.upsert(values)\<close> updates the row that collides with the values on a
  unique key and inserts a row otherwise. The values never carry \<open>item_id\<close>, so
  only a unique index besides the primary key can collide. The model file that declares
  the table is not among the sources, so the index is a parameter.
\<close>

datatype cart_unique = PrimaryKeyOnly | CartProduct | CartProductAttributes

fun collides :: "cart_unique \<Rightarrow> string \<Rightarrow> nat \<Rightarrow> string \<Rightarrow> cart_row \<Rightarrow> bool" where
  "collides PrimaryKeyOnly c p a r = False"
| "collides CartProduct c p a r = (cart_id r = c \<and> product_id r = p)"
| "collides CartProductAttributes c p a r =
     (cart_id r = c \<and> product_id r = p \<and> attributes r = a)"

text \<open>
  What the promise of \<open>upsert\<close> resolves to is tested for truthiness by the handlers.
  After an insert it is truthy; after an update it depends on the ORM's version
  (\<open>false\<close> for "not created", or an array), so that value is a parameter too.
\<close>

record orm =
  cart_index :: cart_unique
  updated_result :: bool

definition ShoppingCart_upsert ::
  "orm \<Rightarrow> nat \<Rightarrow> string \<Rightarrow> nat \<Rightarrow> string \<Rightarrow> int \<Rightarrow> cart_row list \<Rightarrow> bool \<times> cart_row list" where
  "ShoppingCart_upsert env now c p a q rows =
     (if list_ex (collides (cart_index env) c p a) rows
      then (updated_result env,
            map (\<lambda>r. if collides (cart_index env) c p a r
                     then r\<lparr>cart_id := c, product_id := p, attributes := a, quantity := q\<rparr>
                     else r) rows)
      else (True,
            rows @ [\<lparr>item_id = next_id (map item_id rows), cart_id = c, product_id = p,
                     attributes = a, quantity = q, added_on = now\<rparr>]))"

text \<open>
  \<open>findOne({where: {product_id}, order: [['added_on', 'DESC']]})\<close>: a row of the
  product with the greatest \<open>added_on\<close>, the earliest such row of the table on a tie.
\<close>

fun newest :: "cart_row list \<Rightarrow> cart_row option" where
  "newest [] = None"
| "newest (r # rs) =
     (case newest rs of
        None \<Rightarrow> Some r
      | Some b \<Rightarrow> if added_on b \<le> added_on r then Some r else Some b)"

definition line_of :: "cart_row \<Rightarrow> cart_line" where
  "line_of r = \<lparr>l_item_id = item_id r, l_cart_id = cart_id r, l_product_id = product_id r,
               l_attributes = attributes r, l_quantity = quantity r\<rparr>"

subsection \<open>addItemToCart\<close>

definition addItemToCart ::
  "orm \<Rightarrow> nat \<Rightarrow> token \<Rightarrow> string \<Rightarrow> nat \<Rightarrow> string \<Rightarrow> int \<Rightarrow> db \<Rightarrow> response \<times> db" where
  "addItemToCart env now tok c p a q d =
     (case tok of
        Undecodable \<Rightarrow> (TypeError, d)
      | Payload customerId \<Rightarrow>
          if truthy customerId
          then (let (shopping, rows) = ShoppingCart_upsert env now (drop 10 c) p a q (shopping_cart d);
                    d' = d\<lparr>shopping_cart := rows\<rparr>
                in if shopping
                   then (Response 201
                          (Line (map_option line_of (newest (filter (\<lambda>r. product_id r = p) rows)))), d')
                   else (Response 400 (Text ''Could not add item to cart.''), d'))
          else (Response 400 (Text ''Could not add item to cart.''), d))"

subsection \<open>getCart\<close>

text \<open>
  The rows of the cart joined with their products. A row whose product is missing has
  \<open>Product: null\<close>; destructuring it throws inside the \<open>try\<close> block.
\<close>

fun cart_items :: "string \<Rightarrow> product_row list \<Rightarrow> cart_row list \<Rightarrow> cart_item list option" where
  "cart_items c ps [] = Some []"
| "cart_items c ps (r # rs) =
     (case find (\<lambda>p. p_product_id p = product_id r) ps of
        None \<Rightarrow> None
      | Some p \<Rightarrow>
          (case cart_items c ps rs of
             None \<Rightarrow> None
           | Some its \<Rightarrow>
               Some (\<lparr>i_item_id = item_id r, i_cart_id = c, i_name = p_name p,
                      i_attributes = attributes r, i_product_id = product_id r,
                      i_image = p_image p, i_price = p_price p,
                      i_discounted_price = p_discounted_price p, i_quantity = quantity r,
                      i_subtotal = quantity r * p_price p\<rparr> # its)))"

definition getCart :: "token \<Rightarrow> string \<Rightarrow> db \<Rightarrow> response" where
  "getCart tok c d =
     (case tok of
        Undecodable \<Rightarrow> TypeError
      | Payload customerId \<Rightarrow>
          if truthy customerId
          then (case cart_items c (product d) (filter (\<lambda>r. cart_id r = c) (shopping_cart d)) of
                  None \<Rightarrow> NextError
                | Some its \<Rightarrow> Response 200 (Items its))
          else Response 404 (Text ''Could not find a cart with that id.''))"

subsection \<open>emptyCart and removeItemFromCart\<close>

text \<open>\<open>destroy\<close> resolves to the number of rows it deleted; \<open>0\<close> is falsy.\<close>

definition emptyCart :: "token \<Rightarrow> string \<Rightarrow> db \<Rightarrow> response \<times> db" where
  "emptyCart tok c d =
     (case tok of
        Undecodable \<Rightarrow> (TypeError, d)
      | Payload customerId \<Rightarrow>
          if truthy customerId
          then (let emptied = length (filter (\<lambda>r. cart_id r = c) (shopping_cart d));
                    d' = d\<lparr>shopping_cart := filter (\<lambda>r. cart_id r \<noteq> c) (shopping_cart d)\<rparr>
                in if emptied \<noteq> 0
                   then (Response 200 (Items []), d')
                   else (Response 400 (Text ''Unable to empty cart''), d'))
          else (Response 400 (Text ''Unable to empty cart''), d))"

definition removeItemFromCart :: "token \<Rightarrow> nat \<Rightarrow> db \<Rightarrow> response \<times> db" where
  "removeItemFromCart tok i d =
     (case tok of
        Undecodable \<Rightarrow> (TypeError, d)
      | Payload customerId \<Rightarrow>
          if truthy customerId
          then (let removedItem = length (filter (\<lambda>r. item_id r = i) (shopping_cart d));
                    d' = d\<lparr>shopping_cart := filter (\<lambda>r. item_id r \<noteq> i) (shopping_cart d)\<rparr>
                in if removedItem \<noteq> 0
                   then (Response 200 (Message ''successfully removed the item''), d')
                   else (Response 400 (Text ''Unable to remove the item''), d'))
          else (Response 400 (Text ''Unable to remove the item''), d))"

subsection \<open>createOrder and getOrderSummary\<close>

text \<open>
  Modelled from the spec: the declaration of the order table (the \<open>Order\<close> model) is
  not among the sources. The spec's data model lists no unique column of an order beside
  \<open>order_id\<close>, and notes that a repeated checkout is not guarded against. So
  \<open>Order.upsert\<close>, which is given no \<open>order_id\<close>, inserts a row and resolves to a
  truthy value. \<open>total_amount\<close> is not among the values it is given.
\<close>

definition Order_upsert ::
  "nat option \<Rightarrow> string \<Rightarrow> nat \<Rightarrow> nat \<Rightarrow> order_row list \<Rightarrow> bool \<times> order_row list" where
  "Order_upsert customerId c shipping tax rows =
     (True,
      rows @ [\<lparr>o_order_id = next_id (map o_order_id rows), o_customer_id = customerId,
               o_cart_id = c, o_shipping_id = shipping, o_tax_id = tax,
               o_total_amount = None\<rparr>])"

text \<open>\<open>Order.count()\<close> is the number of rows of the table.\<close>

definition createOrder ::
  "token \<Rightarrow> string \<Rightarrow> nat \<Rightarrow> nat \<Rightarrow> db \<Rightarrow> response \<times> db" where
  "createOrder tok c shipping tax d =
     (case tok of
        Undecodable \<Rightarrow> (TypeError, d)
      | Payload customerId \<Rightarrow>
          (let (order, rows) = Order_upsert customerId c shipping tax (orders d);
               d' = d\<lparr>orders := rows\<rparr>
           in if order
              then (Response 201 (OrderId (length rows)), d')
              else (Response 400 (Text ''Could not create the order.''), d')))"


section \<open>The product controller\<close>

subsection \<open>Query parameters\<close>

text \<open>
  A query parameter is absent (\<open>undefined\<close>) or a string. Of a string the handlers
  use only its truthiness and its value under \<open>Number\<close>: it is empty, or \<open>Number\<close>
  reads it as an integer (\<open>"0"\<close>, \<open>"-5"\<close>, \<open>"20"\<close>), or it gives \<open>NaN\<close>.
  Numerals with a fraction are left out. \<open>NumV\<close> is a number the handler assigns.
  Numbers are exact integers here; the doubles of the source agree with them as long as
  every value stays below \<open>2^53\<close> in magnitude.
\<close>

datatype jsval = Undefined | EmptyStr | IntStr int | OtherStr | NumV int

datatype jsnum = NaN | Num int

fun falsy :: "jsval \<Rightarrow> bool" where
  "falsy Undefined = True"
| "falsy EmptyStr = True"
| "falsy (IntStr n) = False"
| "falsy OtherStr = False"
| "falsy (NumV n) = (n = 0)"

fun Number :: "jsval \<Rightarrow> jsnum" where
  "Number Undefined = NaN"
| "Number EmptyStr = Num 0"
| "Number (IntStr n) = Num n"
| "Number OtherStr = NaN"
| "Number (NumV n) = Num n"

fun js_less :: "jsnum \<Rightarrow> jsnum \<Rightarrow> bool" where
  "js_less (Num a) (Num b) = (a < b)"
| "js_less _ _ = False"

fun js_times :: "jsnum \<Rightarrow> jsnum \<Rightarrow> jsnum" where
  "js_times (Num a) (Num b) = Num (a * b)"
| "js_times _ _ = NaN"

fun js_minus :: "jsnum \<Rightarrow> jsnum \<Rightarrow> jsnum" where
  "js_minus (Num a) (Num b) = Num (a - b)"
| "js_minus _ _ = NaN"

text \<open>\<open>description.substring(0, n)\<close>: \<open>NaN\<close> and negative numbers count as \<open>0\<close>.\<close>

fun substring0 :: "string \<Rightarrow> jsnum \<Rightarrow> string" where
  "substring0 s NaN = []"
| "substring0 s (Num n) = take (nat n) s"

text \<open>
  A query with \<open>offset\<close> and \<open>limit\<close>: the database rejects \<open>NaN\<close> and negative
  numbers, and the rejection reaches \<open>next\<close>.
\<close>

fun page_of :: "jsnum \<Rightarrow> jsnum \<Rightarrow> 'a list \<Rightarrow> 'a list option" where
  "page_of (Num off) (Num lim) xs =
     (if 0 \<le> off \<and> 0 \<le> lim then Some (take (nat lim) (drop (nat off) xs)) else None)"
| "page_of _ _ xs = None"

definition list_view :: "jsval \<Rightarrow> product_row \<Rightarrow> product_view" where
  "list_view description_length p =
     \<lparr>v_product_id = p_product_id p, v_name = p_name p,
      v_description = substring0 (p_description p) (Number description_length),
      v_price = p_price p, v_discounted_price = p_discounted_price p,
      v_thumbnail = p_thumbnail p\<rparr>"

definition raw_view :: "product_row \<Rightarrow> product_view" where
  "raw_view p =
     \<lparr>v_product_id = p_product_id p, v_name = p_name p, v_description = p_description p,
      v_price = p_price p, v_discounted_price = p_discounted_price p,
      v_thumbnail = p_thumbnail p\<rparr>"

subsection \<open>getAllProducts\<close>

text \<open>The \<open>offset\<close> and \<open>limit\<close> of \<open>sqlQueryMap\<close>.\<close>

definition getAllProducts_sqlQueryMap :: "jsval \<Rightarrow> jsval \<Rightarrow> jsnum \<times> jsnum" where
  "getAllProducts_sqlQueryMap page0 limit0 =
     (let page = (if falsy page0 then NumV 1
                  else if js_less (Number page0) (Num 1) then NumV 1 else page0);
          limit = (if falsy limit0 then NumV 20 else limit0);
          offset = js_minus (js_times (Number page) (Number limit)) (Number limit)
      in (offset, Number limit))"

text \<open>\<open>Math.ceil(count / limit)\<close>; dividing by \<open>0\<close> gives a value JSON writes as \<open>null\<close>.\<close>

definition ceil_div :: "nat \<Rightarrow> int \<Rightarrow> int option" where
  "ceil_div n lim = (if lim = 0 then None else Some (- ((- int n) div lim)))"

definition getAllProducts :: "jsval \<Rightarrow> jsval \<Rightarrow> jsval \<Rightarrow> db \<Rightarrow> response" where
  "getAllProducts page0 limit0 description_length0 d =
     (let description_length =
            (if falsy description_length0 then NumV 200 else description_length0);
          (offset, lim) = getAllProducts_sqlQueryMap page0 limit0
      in case page_of offset lim (product d) of
           None \<Rightarrow> NextError
         | Some rows \<Rightarrow>
             (case (offset, lim) of
                (Num off, Num l) \<Rightarrow>
                  Response 200
                    (Paginated
                       \<lparr>currentPage = off, currentPageSize = l,
                        totalPages = ceil_div (length (product d)) l,
                        totalRecords = length (product d)\<rparr>
                       (map (list_view description_length) rows))
              | _ \<Rightarrow> NextError))"

subsection \<open>searchProduct\<close>

text \<open>\<open>query_string.split(/[ ,]+/).filter(Boolean)\<close>: the pieces between spaces and commas.\<close>

definition separator :: "char \<Rightarrow> bool" where
  "separator ch = (ch = CHR '' '' \<or> ch = CHR '','')"

fun split_from :: "string \<Rightarrow> string \<Rightarrow> string list" where
  "split_from cur [] = (if cur = [] then [] else [cur])"
| "split_from cur (ch # rest) =
     (if separator ch
      then (if cur = [] then split_from [] rest else cur # split_from [] rest)
      else split_from (cur @ [ch]) rest)"

definition split_words :: "string \<Rightarrow> string list" where
  "split_words s = split_from [] s"

text \<open>
  The database's \<open>LIKE\<close> matches character by character: \<open>%\<close> stands for any run
  of characters and \<open>_\<close> for any one character. Which characters count as the same is
  decided by the collation of the column, which belongs to the database and is the
  parameter \<open>same\<close>: equality for a binary collation, equality up to case for the
  collations that MySQL uses by default. The escape character is not modelled.
\<close>

fun sql_like :: "(char \<Rightarrow> char \<Rightarrow> bool) \<Rightarrow> string \<Rightarrow> string \<Rightarrow> bool" where
  "sql_like same [] s = (s = [])"
| "sql_like same (p # ps) [] = (p = CHR ''%'' \<and> sql_like same ps [])"
| "sql_like same (p # ps) (ch # rest) =
     (if p = CHR ''%'' then sql_like same ps (ch # rest) \<or> sql_like same (p # ps) rest
      else (p = CHR ''_'' \<or> same p ch) \<and> sql_like same ps rest)"

text \<open>A collation that ignores the case of the letters \<open>A\<close> to \<open>Z\<close>.\<close>

definition lower :: "char \<Rightarrow> char" where
  "lower ch =
     (case map_of (zip ''ABCDEFGHIJKLMNOPQRSTUVWXYZ'' ''abcdefghijklmnopqrstuvwxyz'') ch of
        None \<Rightarrow> ch
      | Some l \<Rightarrow> l)"

definition ignore_case :: "char \<Rightarrow> char \<Rightarrow> bool" where
  "ignore_case a b = (lower a = lower b)"

text \<open>
  The words of the spec, "the term appears in the name": some piece of the name has the
  characters of the term, one by one, up to the collation.
\<close>

fun starts_with :: "(char \<Rightarrow> char \<Rightarrow> bool) \<Rightarrow> string \<Rightarrow> string \<Rightarrow> bool" where
  "starts_with same [] s = True"
| "starts_with same (x # xs) [] = False"
| "starts_with same (x # xs) (y # ys) = (same x y \<and> starts_with same xs ys)"

fun appears_in :: "(char \<Rightarrow> char \<Rightarrow> bool) \<Rightarrow> string \<Rightarrow> string \<Rightarrow> bool" where
  "appears_in same t [] = (t = [])"
| "appears_in same t (y # ys) = (starts_with same t (y # ys) \<or> appears_in same t ys)"

text \<open>A string without the characters that \<open>LIKE\<close> reads as wildcards or as escape.\<close>

definition wildcard_free :: "string \<Rightarrow> bool" where
  "wildcard_free s = list_all (\<lambda>ch. ch \<noteq> CHR ''%'' \<and> ch \<noteq> CHR ''_'' \<and> ch \<noteq> CHR 0x5C) s"

text \<open>
  \<open>name: {[Op.or]: queryArray}\<close>. What the ORM makes of an empty array depends on
  its version (no row, or no condition at all), so that is a parameter.
\<close>

definition name_or ::
  "(char \<Rightarrow> char \<Rightarrow> bool) \<Rightarrow> bool \<Rightarrow> string list \<Rightarrow> string \<Rightarrow> bool" where
  "name_or same empty_or queryArray nm =
     (if queryArray = [] then empty_or else list_ex (\<lambda>pat. sql_like same pat nm) queryArray)"

definition searchProduct_offset_limit :: "jsval \<Rightarrow> jsval \<Rightarrow> jsnum \<times> jsnum" where
  "searchProduct_offset_limit page0 limit0 =
     (let page = (if falsy page0 then NumV 1
                  else if js_less (Number page0) (Num 1) then NumV 1 else page0);
          limit = (if falsy limit0 then NumV 20 else limit0);
          offset = js_minus (js_times (Number page) (Number limit)) (Number limit)
      in (offset, Number limit))"

definition searchProduct ::
  "(char \<Rightarrow> char \<Rightarrow> bool) \<Rightarrow> bool \<Rightarrow> jsval \<Rightarrow> jsval \<Rightarrow> jsval \<Rightarrow> string option \<Rightarrow>
   string option \<Rightarrow> db \<Rightarrow> response" where
  "searchProduct same empty_or page0 limit0 description_length0 all_words query_string d =
     (let description_length =
            (if falsy description_length0 then NumV 200 else description_length0);
          (offset, lim) = searchProduct_offset_limit page0 limit0
      in if all_words = Some ''off''
         then (case query_string of
                 None \<Rightarrow> NextError
               | Some qs \<Rightarrow>
                   (let wordQueries = split_words qs;
                        queryArray = map (\<lambda>w. ''%'' @ w @ ''%'') wordQueries
                    in case page_of offset lim
                              (filter (\<lambda>p. name_or same empty_or queryArray (p_name p)) (product d)) of
                         None \<Rightarrow> NextError
                       | Some products \<Rightarrow>
                           Response 200 (Rows (map (list_view description_length) products))))
         else (let pat = ''%'' @ (case query_string of None \<Rightarrow> ''undefined'' | Some qs \<Rightarrow> qs)
                           @ ''%''
               in case page_of offset lim
                         (filter (\<lambda>p. sql_like same pat (p_name p)) (product d)) of
                    None \<Rightarrow> NextError
                  | Some products \<Rightarrow>
                      Response 200 (Rows (map (list_view description_length) products))))"

subsection \<open>getProductsByCategory and getProductsByDepartment\<close>

text \<open>
  Both handlers compute \<open>offset\<close> from the parameters as they arrive, and apply the
  defaults to \<open>page\<close> and \<open>limit\<close> afterwards.
\<close>

definition getProductsByCategory_offset_limit :: "jsval \<Rightarrow> jsval \<Rightarrow> jsnum \<times> jsnum" where
  "getProductsByCategory_offset_limit page0 limit0 =
     (let offset = js_minus (js_times (Number page0) (Number limit0)) (Number limit0);
          page = (if falsy page0 then NumV 1
                  else if js_less (Number page0) (Num 1) then NumV 1 else page0);
          limit = (if falsy limit0 then NumV 20 else limit0)
      in (offset, Number limit))"

text \<open>The product joined to a row of \<open>product_category\<close>, \<open>null\<close> when there is none.\<close>

definition joined_product :: "db \<Rightarrow> product_category_row \<Rightarrow> product_view option" where
  "joined_product d pc =
     map_option raw_view (find (\<lambda>p. p_product_id p = pc_product_id pc) (product d))"

definition getProductsByCategory :: "nat \<Rightarrow> jsval \<Rightarrow> jsval \<Rightarrow> db \<Rightarrow> response" where
  "getProductsByCategory category_id page0 limit0 d =
     (let (offset, lim) = getProductsByCategory_offset_limit page0 limit0
      in case page_of offset lim
                (filter (\<lambda>pc. pc_category_id pc = category_id) (product_category d)) of
           None \<Rightarrow> NextError
         | Some products \<Rightarrow> Response 200 (CategoryRows (map (joined_product d) products)))"

definition getProductsByDepartment_offset_limit :: "jsval \<Rightarrow> jsval \<Rightarrow> jsnum \<times> jsnum" where
  "getProductsByDepartment_offset_limit page0 limit0 =
     (let offset = js_minus (js_times (Number page0) (Number limit0)) (Number limit0);
          page = (if falsy page0 then NumV 1
                  else if js_less (Number page0) (Num 1) then NumV 1 else page0);
          limit = (if falsy limit0 then NumV 20 else limit0)
      in (offset, Number limit))"

definition getProductsByDepartment :: "nat \<Rightarrow> jsval \<Rightarrow> jsval \<Rightarrow> db \<Rightarrow> response" where
  "getProductsByDepartment department_id page0 limit0 d =
     (let (offset, lim) = getProductsByDepartment_offset_limit page0 limit0
      in case page_of offset lim
                (filter (\<lambda>c. cat_department_id c = department_id) (category d)) of
           None \<Rightarrow> NextError
         | Some categoryIDs \<Rightarrow>
             Response 200
               (DepartmentRows
                  (map (\<lambda>c. map (joined_product d)
                               (filter (\<lambda>pc. pc_category_id pc = cat_category_id c)
                                  (product_category d)))
                     categoryIDs)))"

subsection \<open>postProductReview\<close>

text \<open>
  The handler reads the path parameters only; the caller's token is an argument that it
  never looks at. The review is looked up and written under \<open>customer_id: 1\<close>.
  \<open>Review.upsert\<close> is given no \<open>review_id\<close> and is reached only when customer 1
  has no review of the product, so it inserts, and resolves to \<open>true\<close>, which the
  handler sends; \<open>now\<close> is \<open>Date.now()\<close>.
\<close>

definition postProductReview ::
  "token \<Rightarrow> nat \<Rightarrow> nat \<Rightarrow> string \<Rightarrow> int \<Rightarrow> db \<Rightarrow> response \<times> db" where
  "postProductReview tok now pid txt rating d =
     (case find (\<lambda>p. p_product_id p = pid) (product d) of
        Some found \<Rightarrow>
          (case find (\<lambda>r. rv_product_id r = pid \<and> rv_customer_id r = 1) (review d) of
             None \<Rightarrow>
               (Response 201 (Sent True),
                d\<lparr>review := review d @
                    [\<lparr>rv_review_id = next_id (map rv_review_id (review d)),
                      rv_customer_id = 1, rv_product_id = pid, rv_review = txt,
                      rv_rating = rating, rv_created_on = now\<rparr>]\<rparr>)
           | Some customerReview \<Rightarrow>
               (Response 409 (Text ''You have already reviewed this product.''), d))
      | None \<Rightarrow> (Response 404 (ProductMissing pid), d))"

section \<open>The customer controller\<close>

text \<open>\<open>x || null\<close> on a column of a row: absent and empty values become \<open>null\<close>.\<close>

fun or_null :: "string option \<Rightarrow> string option" where
  "or_null None = None"
| "or_null (Some s) = (if s = [] then None else Some s)"

fun or_null_id :: "nat option \<Rightarrow> nat option" where
  "or_null_id None = None"
| "or_null_id (Some n) = (if n = 0 then None else Some n)"

text \<open>
  Modelled from the spec: the \<open>Customer\<close> model, which decides what
  \<open>Customer.findOrCreate\<close> writes into the \<open>password\<close> column, is not among the
  sources. The handler passes the password as it came in the \<open>defaults\<close>; the spec
  says that registration stores a salted and hashed credential, hashing being an outside
  capability, and \<open>login\<close> compares through bcrypt with the stored field. So the model
  layer stores \<open>hash password\<close>, with the capability \<open>hash\<close> as a parameter.
  The call resolves to the customer with the email and whether it was created just now.
\<close>

definition Customer_findOrCreate ::
  "(string \<Rightarrow> string) \<Rightarrow> string \<Rightarrow> string \<Rightarrow> string \<Rightarrow> customer_row list \<Rightarrow>
   (customer_row \<times> bool) \<times> customer_row list" where
  "Customer_findOrCreate hash email nm password rows =
     (case find (\<lambda>c. cu_email c = email) rows of
        Some existing \<Rightarrow> ((existing, False), rows)
      | None \<Rightarrow>
          (let created =
                 \<lparr>cu_customer_id = next_id (map cu_customer_id rows),
                  cu_name = nm, cu_email = email, cu_password = hash password,
                  cu_address_1 = None, cu_address_2 = None, cu_city = None,
                  cu_region = None, cu_postal_code = None, cu_shipping_region_id = None,
                  cu_credit_card = None, cu_day_phone = None, cu_eve_phone = None,
                  cu_mob_phone = None\<rparr>
           in ((created, True), rows @ [created])))"

text \<open>
  \<open>create\<close>. \<open>bcrypt.hashSync\<close> is an outside capability and so a parameter; the
  handler binds its result to \<open>passwordHash\<close> and does not use it.
\<close>

definition create ::
  "(string \<Rightarrow> nat \<Rightarrow> string) \<Rightarrow> (string \<Rightarrow> string) \<Rightarrow> string \<Rightarrow> string \<Rightarrow> string \<Rightarrow> db \<Rightarrow>
   response \<times> db" where
  "create hashSync hash nm email password d =
     (let passwordHash = hashSync password 8;
          ((newCustomer, isNewRecord), rows) =
             Customer_findOrCreate hash email nm password (customer d);
          d' = d\<lparr>customer := rows\<rparr>
      in if \<not> isNewRecord
         then (Response 409 (Error 409 (''User with email '' @ email @ '' already exist'')), d')
         else (Response 201
                 (Auth
                    \<lparr>pr_customer_id = cu_customer_id newCustomer, pr_name = nm,
                     pr_email = email,
                     pr_address_1 = or_null (cu_address_1 newCustomer),
                     pr_address_2 = or_null (cu_address_2 newCustomer),
                     pr_city = or_null (cu_city newCustomer),
                     pr_region = or_null (cu_region newCustomer),
                     pr_postal_code = or_null (cu_postal_code newCustomer),
                     pr_shipping_region_id = or_null_id (cu_shipping_region_id newCustomer),
                     pr_credit_card = or_null (cu_credit_card newCustomer),
                     pr_day_phone = or_null (cu_day_phone newCustomer),
                     pr_eve_phone = or_null (cu_eve_phone newCustomer),
                     pr_mob_phone = or_null (cu_mob_phone newCustomer)\<rparr>
                    (Bearer (cu_customer_id newCustomer) ''24h'') ''24h''),
               d'))"

text \<open>\<open>login\<close>. \<open>bcrypt.compareSync\<close> is an outside capability and so a parameter.\<close>

definition login :: "(string \<Rightarrow> string \<Rightarrow> bool) \<Rightarrow> string \<Rightarrow> string \<Rightarrow> db \<Rightarrow> response" where
  "login compareSync email password d =
     (case find (\<lambda>c. cu_email c = email) (customer d) of
        Some c \<Rightarrow>
          if \<not> compareSync password (cu_password c)
          then Response 401 (Message ''Incorrect password'')
          else Response 200
                 (Auth
                    \<lparr>pr_customer_id = cu_customer_id c, pr_name = cu_name c,
                     pr_email = cu_email c, pr_address_1 = cu_address_1 c,
                     pr_address_2 = cu_address_2 c, pr_city = cu_city c,
                     pr_region = cu_region c, pr_postal_code = cu_postal_code c,
                     pr_shipping_region_id = cu_shipping_region_id c,
                     pr_credit_card = cu_credit_card c, pr_day_phone = cu_day_phone c,
                     pr_eve_phone = cu_eve_phone c, pr_mob_phone = cu_mob_phone c\<rparr>
                    (Bearer (cu_customer_id c) ''24h'') ''24h'')
      | None \<Rightarrow> Response 404 (Error 404 ''User does not exist''))"

section \<open>States used in the examples\<close>

definition empty_db :: db where
  "empty_db = \<lparr>shopping_cart = [], product = [], orders = [], order_detail = [],
                category = [], product_category = [], review = [], customer = []\<rparr>"

definition no_index :: orm where
  "no_index = \<lparr>cart_index = PrimaryKeyOnly, updated_result = False\<rparr>"

definition other_cart_db :: db where
  "other_cart_db = empty_db
     \<lparr>shopping_cart := [\<lparr>item_id = 1, cart_id = ''other'', product_id = 1, attributes = [],
                          quantity = 4, added_on = 5\<rparr>],
      product := [\<lparr>p_product_id = 1, p_name = ''shirt'', p_description = [], p_price = 10,
                    p_discounted_price = 0, p_image = [], p_thumbnail = []\<rparr>]\<rparr>"

text \<open>Two calls of \<open>addItemToCart\<close> that differ in the quantity and the time only.\<close>

definition add_twice ::
  "orm \<Rightarrow> nat \<Rightarrow> nat \<Rightarrow> token \<Rightarrow> string \<Rightarrow> nat \<Rightarrow> string \<Rightarrow> int \<Rightarrow> int \<Rightarrow> db \<Rightarrow> db" where
  "add_twice env t1 t2 tok c p a q1 q2 d =
     snd (addItemToCart env t2 tok c p a q2 (snd (addItemToCart env t1 tok c p a q1 d)))"

text \<open>The cart of the spec's checkout scenario.\<close>

definition abc123_db :: db where
  "abc123_db = empty_db
     \<lparr>shopping_cart :=
        [\<lparr>item_id = 1, cart_id = ''abc123'', product_id = 1, attributes = [], quantity = 2,
          added_on = 1\<rparr>,
         \<lparr>item_id = 2, cart_id = ''abc123'', product_id = 2, attributes = [], quantity = 1,
          added_on = 2\<rparr>],
      product :=
        [\<lparr>p_product_id = 1, p_name = ''shirt'', p_description = [], p_price = 10,
          p_discounted_price = 0, p_image = [], p_thumbnail = []\<rparr>,
         \<lparr>p_product_id = 2, p_name = ''cap'', p_description = [], p_price = 5,
          p_discounted_price = 0, p_image = [], p_thumbnail = []\<rparr>]\<rparr>"

text \<open>A catalogue of one product.\<close>

definition shirt_db :: db where
  "shirt_db = empty_db
     \<lparr>product := [\<lparr>p_product_id = 1, p_name = ''red shirt'', p_description = ''cotton'',
                    p_price = 10, p_discounted_price = 0, p_image = [], p_thumbnail = []\<rparr>]\<rparr>"

text \<open>A stand-in for \<open>bcrypt.compareSync\<close> in the examples, and a customer table for it.\<close>

definition digest_matches :: "string \<Rightarrow> string \<Rightarrow> bool" where
  "digest_matches password digest = (digest = ''#'' @ password)"

definition alice_db :: db where
  "alice_db = empty_db
     \<lparr>customer := [\<lparr>cu_customer_id = 1, cu_name = ''Alice'', cu_email = ''alice@example.com'',
                     cu_password = ''#secret'', cu_address_1 = None, cu_address_2 = None,
                     cu_city = None, cu_region = None, cu_postal_code = None,
                     cu_shipping_region_id = None, cu_credit_card = None, cu_day_phone = None,
                     cu_eve_phone = None, cu_mob_phone = None\<rparr>]\<rparr>"

text \<open>A stand-in for the hashing capability, which \<open>digest_matches\<close> accepts.\<close>

definition toy_digest :: "string \<Rightarrow> string" where
  "toy_digest password = ''#'' @ password"



section \<open>Properties of the shopping cart controller\<close>

subsection \<open>Lemmas on the cart table\<close>

lemma newest_None: "newest rs = None \<longleftrightarrow> rs = []"
  by (induction rs) (auto split: option.splits)

lemma newest_mem: "newest rs = Some r \<Longrightarrow> r \<in> set rs"
  by (induction rs arbitrary: r) (auto split: option.splits if_splits)

lemma newest_max: "newest rs = Some r \<Longrightarrow> r' \<in> set rs \<Longrightarrow> added_on r' \<le> added_on r"
proof (induction rs arbitrary: r)
  case Nil
  then show ?case by simp
next
  case (Cons x xs)
  show ?case
  proof (cases "newest xs")
    case None
    with Cons.prems show ?thesis by (simp add: newest_None)
  next
    case (Some b)
    with Cons show ?thesis by (fastforce split: if_splits)
  qed
qed

lemma upsert_written:
  "\<exists>r \<in> set (snd (ShoppingCart_upsert env now c p a q rows)).
     cart_id r = c \<and> product_id r = p \<and> attributes r = a \<and> quantity r = q"
proof (cases "list_ex (collides (cart_index env) c p a) rows")
  case True
  then obtain r where r: "r \<in> set rows" "collides (cart_index env) c p a r"
    by (auto simp: list_ex_iff)
  let ?f = "\<lambda>r. if collides (cart_index env) c p a r
                 then r\<lparr>cart_id := c, product_id := p, attributes := a, quantity := q\<rparr>
                 else r"
  have "?f r \<in> set (map ?f rows)" using r(1) by (simp del: map_eq_conv)
  moreover have "cart_id (?f r) = c \<and> product_id (?f r) = p \<and> attributes (?f r) = a
                 \<and> quantity (?f r) = q"
    using r(2) by simp
  moreover have "snd (ShoppingCart_upsert env now c p a q rows) = map ?f rows"
    using True by (simp add: ShoppingCart_upsert_def)
  ultimately show ?thesis by (intro bexI[of _ "?f r"]) simp_all
next
  case False
  then show ?thesis by (simp add: ShoppingCart_upsert_def)
qed

lemma collides_cart: "collides ix c p a r \<Longrightarrow> ix \<noteq> PrimaryKeyOnly \<and> cart_id r = c \<and> product_id r = p"
  by (cases ix) auto

lemma upsert_other_cart:
  "c' \<noteq> c \<Longrightarrow>
   filter (\<lambda>r. cart_id r = c') (snd (ShoppingCart_upsert env now c p a q rows))
     = filter (\<lambda>r. cart_id r = c') rows"
proof (cases "list_ex (collides (cart_index env) c p a) rows")
  case True
  assume ne: "c' \<noteq> c"
  have "filter (\<lambda>r. cart_id r = c')
          (map (\<lambda>r. if collides (cart_index env) c p a r
                     then r\<lparr>cart_id := c, product_id := p, attributes := a, quantity := q\<rparr>
                     else r) rows) = filter (\<lambda>r. cart_id r = c') rows"
    using ne by (induction rows) (auto dest: collides_cart)
  with True show ?thesis by (simp add: ShoppingCart_upsert_def)
next
  case False
  assume "c' \<noteq> c"
  with False show ?thesis by (auto simp: ShoppingCart_upsert_def)
qed

lemma upsert_rows:
  "r \<in> set (snd (ShoppingCart_upsert env now c p a q rows)) \<Longrightarrow> r \<in> set rows \<or> cart_id r = c"
  by (auto simp: ShoppingCart_upsert_def split: if_splits)

lemma drop_10_neq: "c \<noteq> [] \<Longrightarrow> drop 10 c \<noteq> c"
proof
  assume "c \<noteq> []" "drop 10 c = c"
  then have "length (drop 10 c) = length c" by simp
  with \<open>c \<noteq> []\<close> show False by (cases c) auto
qed

lemma upsert_insert:
  "cart_index env = PrimaryKeyOnly \<Longrightarrow>
   ShoppingCart_upsert env now c p a q rows =
     (True, rows @ [\<lparr>item_id = next_id (map item_id rows), cart_id = c, product_id = p,
                     attributes = a, quantity = q, added_on = now\<rparr>])"
  by (simp add: ShoppingCart_upsert_def list_ex_iff)

lemma add_cart:
  "truthy cid \<Longrightarrow>
   shopping_cart (snd (addItemToCart env now (Payload cid) c p a q d))
     = snd (ShoppingCart_upsert env now (drop 10 c) p a q (shopping_cart d))"
  by (simp add: addItemToCart_def Let_def split: prod.splits)

lemma add_frame:
  "product (snd (addItemToCart env now tok c p a q d)) = product d"
  by (simp add: addItemToCart_def Let_def split: prod.splits token.splits)


lemma cart_items_cong:
  "getCart tk c (d\<lparr>shopping_cart := rows\<rparr>) = getCart tk c d"
  if "filter (\<lambda>r. cart_id r = c) rows = filter (\<lambda>r. cart_id r = c) (shopping_cart d)"
  using that by (simp add: getCart_def split: token.splits)

lemma add_result:
  "addItemToCart env now (Payload cid) c p a q d = (resp, d') \<Longrightarrow> truthy cid \<Longrightarrow>
   d' = d\<lparr>shopping_cart := snd (ShoppingCart_upsert env now (drop 10 c) p a q (shopping_cart d))\<rparr>
   \<and> resp = (if fst (ShoppingCart_upsert env now (drop 10 c) p a q (shopping_cart d))
            then Response 201 (Line (map_option line_of
                   (newest (filter (\<lambda>r. product_id r = p)
                      (snd (ShoppingCart_upsert env now (drop 10 c) p a q (shopping_cart d)))))))
            else Response 400 (Text ''Could not add item to cart.''))"
  by (auto simp: addItemToCart_def Let_def split: prod.splits if_splits)

subsection \<open>The cart id of an added line\<close>

text \<open>
  Claim C5. A call of \<open>addItemToCart\<close> with a token that carries a customer id writes
  its line under \<open>cart_id.substring(10)\<close>: the table then holds a line with that cart
  id and the product, attributes and quantity of the call, and every row that is new or
  changed carries that cart id. For a non-empty \<open>cart_id\<close> (so for every one longer
  than 10 characters) \<open>getCart\<close> with the id as supplied answers as it did before the
  call, so it does not show the line. The line sent back is a row of the product with the
  greatest \<open>added_on\<close> among the rows of that product in all carts; the witness is a
  call that is answered with a line of another cart.
\<close>

theorem added_line_under_truncated_cart_id:
  assumes "truthy cid" and "c \<noteq> []"
    and "addItemToCart env now (Payload cid) c p a q d = (resp, d')"
  shows "(\<exists>r \<in> set (shopping_cart d').
            cart_id r = drop 10 c \<and> product_id r = p \<and> attributes r = a \<and> quantity r = q)
       \<and> (\<forall>r \<in> set (shopping_cart d'). r \<in> set (shopping_cart d) \<or> cart_id r = drop 10 c)
       \<and> getCart tk c d' = getCart tk c d
       \<and> (resp = Response 400 (Text ''Could not add item to cart.'')
          \<or> (\<exists>r \<in> set (shopping_cart d').
                resp = Response 201 (Line (Some (line_of r))) \<and> product_id r = p
                \<and> (\<forall>r' \<in> set (shopping_cart d'). product_id r' = p \<longrightarrow> added_on r' \<le> added_on r)))"
proof -
  let ?up = "ShoppingCart_upsert env now (drop 10 c) p a q (shopping_cart d)"
  from add_result[OF assms(3) assms(1)]
  have d': "d' = d\<lparr>shopping_cart := snd ?up\<rparr>"
    and resp: "resp = (if fst ?up
            then Response 201 (Line (map_option line_of
                   (newest (filter (\<lambda>r. product_id r = p) (snd ?up)))))
            else Response 400 (Text ''Could not add item to cart.''))"
    by simp_all
  have rows: "shopping_cart d' = snd ?up" by (simp add: d')
  have written: "\<exists>r \<in> set (shopping_cart d').
            cart_id r = drop 10 c \<and> product_id r = p \<and> attributes r = a \<and> quantity r = q"
    unfolding rows by (rule upsert_written)
  have only: "\<forall>r \<in> set (shopping_cart d'). r \<in> set (shopping_cart d) \<or> cart_id r = drop 10 c"
    unfolding rows by (blast dest: upsert_rows)
  have "c \<noteq> drop 10 c" using drop_10_neq[OF assms(2)] by simp
  then have "filter (\<lambda>r. cart_id r = c) (snd ?up) = filter (\<lambda>r. cart_id r = c) (shopping_cart d)"
    by (rule upsert_other_cart)
  then have cart: "getCart tk c d' = getCart tk c d"
    unfolding d' by (rule cart_items_cong)
  have answer: "resp = Response 400 (Text ''Could not add item to cart.'')
          \<or> (\<exists>r \<in> set (shopping_cart d').
                resp = Response 201 (Line (Some (line_of r))) \<and> product_id r = p
                \<and> (\<forall>r' \<in> set (shopping_cart d'). product_id r' = p \<longrightarrow> added_on r' \<le> added_on r))"
  proof (cases "fst ?up")
    case False
    then show ?thesis by (simp add: resp)
  next
    case True
    let ?ps = "filter (\<lambda>r. product_id r = p) (snd ?up)"
    from written have "?ps \<noteq> []" unfolding rows by (auto simp: filter_empty_conv)
    then obtain r where r: "newest ?ps = Some r"
      using newest_None[of ?ps] by (cases "newest ?ps") auto
    have "r \<in> set ?ps" using newest_mem[OF r] .
    moreover have "\<forall>r' \<in> set ?ps. added_on r' \<le> added_on r"
      using newest_max[OF r] by blast
    ultimately show ?thesis using True r by (auto simp: resp rows)
  qed
  from written only cart answer show ?thesis by blast
qed

theorem added_line_under_truncated_cart_id_witness:
  "truthy (Some 1) \<and> ''0123456789abc'' \<noteq> []
   \<and> fst (addItemToCart no_index 5 (Payload (Some 1)) ''0123456789abc'' 1 [] 2 other_cart_db)
       = Response 201 (Line (Some \<lparr>l_item_id = 1, l_cart_id = ''other'', l_product_id = 1,
                                  l_attributes = [], l_quantity = 4\<rparr>))
   \<and> getCart (Payload (Some 1)) ''0123456789abc''
        (snd (addItemToCart no_index 5 (Payload (Some 1)) ''0123456789abc'' 1 [] 2 other_cart_db))
       = getCart (Payload (Some 1)) ''0123456789abc'' other_cart_db"
proof -
  have h1: "truthy (Some 1)" by simp
  have h2: "''0123456789abc'' \<noteq> []" by simp
  have h3: "addItemToCart no_index 5 (Payload (Some 1)) ''0123456789abc'' 1 [] 2 other_cart_db
        = (fst (addItemToCart no_index 5 (Payload (Some 1)) ''0123456789abc'' 1 [] 2 other_cart_db),
           snd (addItemToCart no_index 5 (Payload (Some 1)) ''0123456789abc'' 1 [] 2 other_cart_db))"
    by simp
  have ev: "fst (addItemToCart no_index 5 (Payload (Some 1)) ''0123456789abc'' 1 [] 2 other_cart_db)
       = Response 201 (Line (Some \<lparr>l_item_id = 1, l_cart_id = ''other'', l_product_id = 1,
                                  l_attributes = [], l_quantity = 4\<rparr>))"
    by (simp add: addItemToCart_def ShoppingCart_upsert_def no_index_def other_cart_db_def
        empty_db_def next_id_def line_of_def)
  from added_line_under_truncated_cart_id[OF h1 h2 h3, of "Payload (Some 1)"] h1 h2 ev
  show ?thesis by simp
qed

lemma upsert_CartProduct_all:
  assumes "cart_index env = CartProduct"
    and "r \<in> set (snd (ShoppingCart_upsert env now c p a q rows))"
    and "cart_id r = c" and "product_id r = p"
  shows "quantity r = q"
proof (cases "list_ex (collides CartProduct c p a) rows")
  case True
  let ?f = "\<lambda>x. if collides CartProduct c p a x
                 then x\<lparr>cart_id := c, product_id := p, attributes := a, quantity := q\<rparr>
                 else x"
  from True assms(1) have "snd (ShoppingCart_upsert env now c p a q rows) = map ?f rows"
    by (simp add: ShoppingCart_upsert_def)
  with assms(2) obtain x where x: "x \<in> set rows" "r = ?f x" by auto
  show ?thesis
  proof (cases "collides CartProduct c p a x")
    case True
    with x(2) show ?thesis by (simp del: collides.simps)
  next
    case False
    with x(2) have "r = x" by (simp del: collides.simps)
    with False assms(3,4) show ?thesis by simp
  qed
next
  case False
  with assms(1) have "snd (ShoppingCart_upsert env now c p a q rows) =
      rows @ [\<lparr>item_id = next_id (map item_id rows), cart_id = c, product_id = p,
                attributes = a, quantity = q, added_on = now\<rparr>]"
    by (simp add: ShoppingCart_upsert_def)
  with assms(2) consider "r \<in> set rows"
    | "r = \<lparr>item_id = next_id (map item_id rows), cart_id = c, product_id = p,
            attributes = a, quantity = q, added_on = now\<rparr>"
    by auto
  then show ?thesis
  proof cases
    case 1
    with assms(3,4) have "list_ex (collides CartProduct c p a) rows"
      by (auto simp: list_ex_iff)
    with False show ?thesis by simp
  next
    case 2
    then have "quantity r = quantity \<lparr>item_id = next_id (map item_id rows), cart_id = c,
        product_id = p, attributes = a, quantity = q, added_on = now\<rparr>"
      by (rule arg_cong)
    then show ?thesis by simp
  qed
qed

subsection \<open>Adding the same product twice\<close>

text \<open>
  Claim C1, as stated, fails. Adding product 1 to cart \<open>abc123\<close> with quantity 2 and
  then with quantity 3, into empty tables: without a unique index beside the primary key
  the table holds two lines with quantities 2 and 3; with a unique index on the cart and
  product columns (with or without the attributes) it holds one line with quantity 3.
  A line with quantity 5 appears in no case.
\<close>

theorem two_adds_counterexample:
  "map quantity (shopping_cart (add_twice \<lparr>cart_index = PrimaryKeyOnly, updated_result = False\<rparr>
      1 2 (Payload (Some 1)) ''abc123'' 1 [] 2 3 empty_db)) = [2, 3]
   \<and> map quantity (shopping_cart (add_twice \<lparr>cart_index = PrimaryKeyOnly, updated_result = True\<rparr>
      1 2 (Payload (Some 1)) ''abc123'' 1 [] 2 3 empty_db)) = [2, 3]
   \<and> map quantity (shopping_cart (add_twice \<lparr>cart_index = CartProduct, updated_result = False\<rparr>
      1 2 (Payload (Some 1)) ''abc123'' 1 [] 2 3 empty_db)) = [3]
   \<and> map quantity (shopping_cart (add_twice \<lparr>cart_index = CartProduct, updated_result = True\<rparr>
      1 2 (Payload (Some 1)) ''abc123'' 1 [] 2 3 empty_db)) = [3]
   \<and> map quantity (shopping_cart (add_twice \<lparr>cart_index = CartProductAttributes, updated_result = False\<rparr>
      1 2 (Payload (Some 1)) ''abc123'' 1 [] 2 3 empty_db)) = [3]
   \<and> map quantity (shopping_cart (add_twice \<lparr>cart_index = CartProductAttributes, updated_result = True\<rparr>
      1 2 (Payload (Some 1)) ''abc123'' 1 [] 2 3 empty_db)) = [3]"
  by (simp add: add_twice_def addItemToCart_def ShoppingCart_upsert_def empty_db_def next_id_def)

text \<open>
  Claim C1, amended. After two calls of \<open>addItemToCart\<close> with a token that carries a
  customer id, for the same cart, product and attributes and with quantities \<open>q1\<close> and
  \<open>q2\<close>, the table holds a line under \<open>cart_id.substring(10)\<close> for the product and
  attributes whose quantity is \<open>q2\<close>, the quantity of the second call. Without a unique
  index beside the primary key the two calls append two lines, with \<open>q1\<close> and \<open>q2\<close>;
  with a unique index on cart and product every line of that cart and product has
  quantity \<open>q2\<close>. The quantities are never added.
\<close>

theorem second_add_sets_quantity:
  assumes "truthy cid"
  shows "(\<exists>r \<in> set (shopping_cart (add_twice env t1 t2 (Payload cid) c p a q1 q2 d)).
            cart_id r = drop 10 c \<and> product_id r = p \<and> attributes r = a \<and> quantity r = q2)
       \<and> (cart_index env = PrimaryKeyOnly \<longrightarrow>
            (\<exists>i1 i2. shopping_cart (add_twice env t1 t2 (Payload cid) c p a q1 q2 d) =
               shopping_cart d @
                 [\<lparr>item_id = i1, cart_id = drop 10 c, product_id = p, attributes = a,
                   quantity = q1, added_on = t1\<rparr>,
                  \<lparr>item_id = i2, cart_id = drop 10 c, product_id = p, attributes = a,
                   quantity = q2, added_on = t2\<rparr>]))
       \<and> (cart_index env = CartProduct \<longrightarrow>
            (\<forall>r \<in> set (shopping_cart (add_twice env t1 t2 (Payload cid) c p a q1 q2 d)).
               cart_id r = drop 10 c \<and> product_id r = p \<longrightarrow> quantity r = q2))"
proof -
  let ?d1 = "snd (addItemToCart env t1 (Payload cid) c p a q1 d)"
  let ?d2 = "add_twice env t1 t2 (Payload cid) c p a q1 q2 d"
  have rows1: "shopping_cart ?d1 = snd (ShoppingCart_upsert env t1 (drop 10 c) p a q1 (shopping_cart d))"
    using assms by (rule add_cart)
  have rows2: "shopping_cart ?d2 = snd (ShoppingCart_upsert env t2 (drop 10 c) p a q2 (shopping_cart ?d1))"
    unfolding add_twice_def using assms by (rule add_cart)
  have last: "\<exists>r \<in> set (shopping_cart ?d2).
            cart_id r = drop 10 c \<and> product_id r = p \<and> attributes r = a \<and> quantity r = q2"
    unfolding rows2 by (rule upsert_written)
  have two: "\<exists>i1 i2. shopping_cart ?d2 =
               shopping_cart d @
                 [\<lparr>item_id = i1, cart_id = drop 10 c, product_id = p, attributes = a,
                   quantity = q1, added_on = t1\<rparr>,
                  \<lparr>item_id = i2, cart_id = drop 10 c, product_id = p, attributes = a,
                   quantity = q2, added_on = t2\<rparr>]"
    if "cart_index env = PrimaryKeyOnly"
    unfolding rows2 rows1 by (simp add: upsert_insert[OF that])
  have one: "\<forall>r \<in> set (shopping_cart ?d2).
               cart_id r = drop 10 c \<and> product_id r = p \<longrightarrow> quantity r = q2"
    if "cart_index env = CartProduct"
    unfolding rows2 using upsert_CartProduct_all[OF that] by blast
  from last two one show ?thesis by blast
qed

theorem second_add_sets_quantity_witness:
  "truthy (Some 1)
   \<and> cart_index \<lparr>cart_index = PrimaryKeyOnly, updated_result = False\<rparr> = PrimaryKeyOnly
   \<and> shopping_cart (add_twice \<lparr>cart_index = PrimaryKeyOnly, updated_result = False\<rparr>
        1 2 (Payload (Some 1)) ''abc123'' 1 [] 2 3 empty_db)
       = [\<lparr>item_id = 1, cart_id = [], product_id = 1, attributes = [], quantity = 2, added_on = 1\<rparr>,
          \<lparr>item_id = 2, cart_id = [], product_id = 1, attributes = [], quantity = 3, added_on = 2\<rparr>]
   \<and> cart_index \<lparr>cart_index = CartProduct, updated_result = False\<rparr> = CartProduct
   \<and> shopping_cart (add_twice \<lparr>cart_index = CartProduct, updated_result = False\<rparr>
        1 2 (Payload (Some 1)) ''abc123'' 1 [] 2 3 empty_db)
       = [\<lparr>item_id = 1, cart_id = [], product_id = 1, attributes = [], quantity = 3, added_on = 1\<rparr>]"
proof -
  have h: "truthy (Some 1)" by simp
  have k1: "cart_index \<lparr>cart_index = PrimaryKeyOnly, updated_result = False\<rparr> = PrimaryKeyOnly"
    by simp
  have k2: "cart_index \<lparr>cart_index = CartProduct, updated_result = False\<rparr> = CartProduct"
    by simp
  have e1: "shopping_cart (add_twice \<lparr>cart_index = PrimaryKeyOnly, updated_result = False\<rparr>
        1 2 (Payload (Some 1)) ''abc123'' 1 [] 2 3 empty_db)
       = [\<lparr>item_id = 1, cart_id = [], product_id = 1, attributes = [], quantity = 2, added_on = 1\<rparr>,
          \<lparr>item_id = 2, cart_id = [], product_id = 1, attributes = [], quantity = 3, added_on = 2\<rparr>]"
    by (simp add: add_twice_def addItemToCart_def ShoppingCart_upsert_def empty_db_def next_id_def)
  have e2: "shopping_cart (add_twice \<lparr>cart_index = CartProduct, updated_result = False\<rparr>
        1 2 (Payload (Some 1)) ''abc123'' 1 [] 2 3 empty_db)
       = [\<lparr>item_id = 1, cart_id = [], product_id = 1, attributes = [], quantity = 3, added_on = 1\<rparr>]"
    by (simp add: add_twice_def addItemToCart_def ShoppingCart_upsert_def empty_db_def next_id_def)
  from second_add_sets_quantity[OF h, of "\<lparr>cart_index = PrimaryKeyOnly, updated_result = False\<rparr>"
         1 2 "''abc123''" 1 "[]" 2 3 empty_db]
       second_add_sets_quantity[OF h, of "\<lparr>cart_index = CartProduct, updated_result = False\<rparr>"
         1 2 "''abc123''" 1 "[]" 2 3 empty_db]
       h k1 k2 e1 e2
  show ?thesis by blast
qed

subsection \<open>Checkout\<close>

text \<open>
  Claim C2, as stated, fails on the spec's scenario: after \<open>createOrder\<close> for cart
  \<open>abc123\<close> there is no order-detail row, the order row has no total written, and
  \<open>getCart\<close> still returns the two lines.
\<close>

theorem createOrder_counterexample:
  "fst (createOrder (Payload (Some 7)) ''abc123'' 1 1 abc123_db) = Response 201 (OrderId 1)
   \<and> order_detail (snd (createOrder (Payload (Some 7)) ''abc123'' 1 1 abc123_db)) = []
   \<and> map o_total_amount (orders (snd (createOrder (Payload (Some 7)) ''abc123'' 1 1 abc123_db)))
       = [None]
   \<and> getCart (Payload (Some 7)) ''abc123''
        (snd (createOrder (Payload (Some 7)) ''abc123'' 1 1 abc123_db))
       = Response 200 (Items
          [\<lparr>i_item_id = 1, i_cart_id = ''abc123'', i_name = ''shirt'', i_attributes = [],
            i_product_id = 1, i_image = [], i_price = 10, i_discounted_price = 0,
            i_quantity = 2, i_subtotal = 20\<rparr>,
           \<lparr>i_item_id = 2, i_cart_id = ''abc123'', i_name = ''cap'', i_attributes = [],
            i_product_id = 2, i_image = [], i_price = 5, i_discounted_price = 0,
            i_quantity = 1, i_subtotal = 5\<rparr>])"
  by (simp add: createOrder_def Order_upsert_def getCart_def abc123_db_def empty_db_def
      next_id_def)

text \<open>
  Claim C2, amended. \<open>createOrder\<close> with a decodable token inserts one order row that
  holds the customer id of the token and the \<open>cart_id\<close>, \<open>shipping_id\<close> and
  \<open>tax_id\<close> of the request, and no total; the row is the same whatever the cart and
  the product table hold. It writes no order-detail row and leaves the cart as it is, so
  \<open>getCart\<close> answers as before. It answers 201 with the number of order rows as
  \<open>order_id\<close>.
\<close>

theorem createOrder_only_inserts_order:
  "fst (createOrder (Payload cid) c shipping tax d) = Response 201 (OrderId (Suc (length (orders d))))
   \<and> orders (snd (createOrder (Payload cid) c shipping tax d)) =
       orders d @ [\<lparr>o_order_id = next_id (map o_order_id (orders d)), o_customer_id = cid,
                    o_cart_id = c, o_shipping_id = shipping, o_tax_id = tax,
                    o_total_amount = None\<rparr>]
   \<and> orders (snd (createOrder (Payload cid) c shipping tax (d\<lparr>shopping_cart := rows, product := ps\<rparr>)))
       = orders (snd (createOrder (Payload cid) c shipping tax d))
   \<and> order_detail (snd (createOrder (Payload cid) c shipping tax d)) = order_detail d
   \<and> shopping_cart (snd (createOrder (Payload cid) c shipping tax d)) = shopping_cart d
   \<and> getCart tk c' (snd (createOrder (Payload cid) c shipping tax d)) = getCart tk c' d"
  by (simp add: createOrder_def Order_upsert_def getCart_def Let_def split: token.splits)






subsection \<open>Deleting from the cart\<close>

text \<open>
  Claim C4, as stated, fails: removing an item that does not exist and emptying a cart
  that holds nothing are answered with status 400, and removing an existing item a second
  time is answered with 400 after the 200 of the first time.
\<close>

theorem deletion_counterexample:
  "fst (removeItemFromCart (Payload (Some 1)) 7 empty_db)
     = Response 400 (Text ''Unable to remove the item'')
   \<and> fst (emptyCart (Payload (Some 1)) ''abc123'' empty_db)
     = Response 400 (Text ''Unable to empty cart'')
   \<and> fst (removeItemFromCart (Payload (Some 1)) 1 other_cart_db)
     = Response 200 (Message ''successfully removed the item'')
   \<and> fst (removeItemFromCart (Payload (Some 1)) 1
            (snd (removeItemFromCart (Payload (Some 1)) 1 other_cart_db)))
     = Response 400 (Text ''Unable to remove the item'')"
  by (simp add: removeItemFromCart_def emptyCart_def empty_db_def other_cart_db_def)

lemma filter_all: "\<forall>x \<in> set xs. P x \<Longrightarrow> filter P xs = xs"
  by (induction xs) auto

text \<open>
  Claim C4, amended. With a decodable token, \<open>removeItemFromCart\<close> for an item id that
  no row has, and \<open>emptyCart\<close> for a cart id that no row has, leave the tables unchanged
  and answer 400 (\<open>Unable to remove the item\<close>, \<open>Unable to empty cart\<close>); a
  deletion repeated right after itself is answered 400. When the token carries a customer
  id, removing an item that exists deletes its rows and is answered 200, and removing it
  again is answered 400 and changes nothing more; emptying a cart that has rows deletes
  them and is answered 200 with an empty list, and emptying it again is answered 400.
\<close>

theorem deleting_nothing_is_answered_400:
  "(i \<notin> item_id ` set (shopping_cart d) \<longrightarrow>
      removeItemFromCart (Payload cid) i d = (Response 400 (Text ''Unable to remove the item''), d))
   \<and> (c \<notin> cart_id ` set (shopping_cart d) \<longrightarrow>
      emptyCart (Payload cid) c d = (Response 400 (Text ''Unable to empty cart''), d))
   \<and> fst (removeItemFromCart (Payload cid) i (snd (removeItemFromCart (Payload cid) i d)))
       = Response 400 (Text ''Unable to remove the item'')
   \<and> fst (emptyCart (Payload cid) c (snd (emptyCart (Payload cid) c d)))
       = Response 400 (Text ''Unable to empty cart'')
   \<and> (truthy cid \<and> i \<in> item_id ` set (shopping_cart d) \<longrightarrow>
      removeItemFromCart (Payload cid) i d =
        (Response 200 (Message ''successfully removed the item''),
         d\<lparr>shopping_cart := filter (\<lambda>r. item_id r \<noteq> i) (shopping_cart d)\<rparr>)
      \<and> removeItemFromCart (Payload cid) i (snd (removeItemFromCart (Payload cid) i d)) =
        (Response 400 (Text ''Unable to remove the item''),
         d\<lparr>shopping_cart := filter (\<lambda>r. item_id r \<noteq> i) (shopping_cart d)\<rparr>))
   \<and> (truthy cid \<and> c \<in> cart_id ` set (shopping_cart d) \<longrightarrow>
      emptyCart (Payload cid) c d =
        (Response 200 (Items []),
         d\<lparr>shopping_cart := filter (\<lambda>r. cart_id r \<noteq> c) (shopping_cart d)\<rparr>)
      \<and> emptyCart (Payload cid) c (snd (emptyCart (Payload cid) c d)) =
        (Response 400 (Text ''Unable to empty cart''),
         d\<lparr>shopping_cart := filter (\<lambda>r. cart_id r \<noteq> c) (shopping_cart d)\<rparr>))"
proof -
  have a: "removeItemFromCart (Payload cid) i d = (Response 400 (Text ''Unable to remove the item''), d)"
    if "i \<notin> item_id ` set (shopping_cart d)" for d
  proof -
    from that have "\<forall>r \<in> set (shopping_cart d). item_id r \<noteq> i" by auto
    then have "filter (\<lambda>r. item_id r \<noteq> i) (shopping_cart d) = shopping_cart d"
      and "filter (\<lambda>r. item_id r = i) (shopping_cart d) = []"
      by (simp_all add: filter_all filter_empty_conv)
    then show ?thesis by (simp add: removeItemFromCart_def)
  qed
  have b: "emptyCart (Payload cid) c d = (Response 400 (Text ''Unable to empty cart''), d)"
    if "c \<notin> cart_id ` set (shopping_cart d)" for d
  proof -
    from that have "\<forall>r \<in> set (shopping_cart d). cart_id r \<noteq> c" by auto
    then have "filter (\<lambda>r. cart_id r \<noteq> c) (shopping_cart d) = shopping_cart d"
      and "filter (\<lambda>r. cart_id r = c) (shopping_cart d) = []"
      by (simp_all add: filter_all filter_empty_conv)
    then show ?thesis by (simp add: emptyCart_def)
  qed
  have c1: "fst (removeItemFromCart (Payload cid) i (snd (removeItemFromCart (Payload cid) i d)))
       = Response 400 (Text ''Unable to remove the item'')"
    by (simp add: removeItemFromCart_def Let_def)
  have c2: "fst (emptyCart (Payload cid) c (snd (emptyCart (Payload cid) c d)))
       = Response 400 (Text ''Unable to empty cart'')"
    by (simp add: emptyCart_def Let_def)
  have r1: "removeItemFromCart (Payload cid) i d =
        (Response 200 (Message ''successfully removed the item''),
         d\<lparr>shopping_cart := filter (\<lambda>r. item_id r \<noteq> i) (shopping_cart d)\<rparr>)"
    if "truthy cid" "i \<in> item_id ` set (shopping_cart d)"
  proof -
    from that(2) have "filter (\<lambda>r. item_id r = i) (shopping_cart d) \<noteq> []"
      by (auto simp: filter_empty_conv)
    with that(1) show ?thesis by (simp add: removeItemFromCart_def)
  qed
  have r2: "removeItemFromCart (Payload cid) i (snd (removeItemFromCart (Payload cid) i d)) =
        (Response 400 (Text ''Unable to remove the item''),
         d\<lparr>shopping_cart := filter (\<lambda>r. item_id r \<noteq> i) (shopping_cart d)\<rparr>)"
    if "truthy cid" "i \<in> item_id ` set (shopping_cart d)"
  proof -
    have "i \<notin> item_id ` set (shopping_cart
            (d\<lparr>shopping_cart := filter (\<lambda>r. item_id r \<noteq> i) (shopping_cart d)\<rparr>))"
      by auto
    from a[OF this] show ?thesis by (simp add: r1[OF that])
  qed
  have e1: "emptyCart (Payload cid) c d =
        (Response 200 (Items []),
         d\<lparr>shopping_cart := filter (\<lambda>r. cart_id r \<noteq> c) (shopping_cart d)\<rparr>)"
    if "truthy cid" "c \<in> cart_id ` set (shopping_cart d)"
  proof -
    from that(2) have "filter (\<lambda>r. cart_id r = c) (shopping_cart d) \<noteq> []"
      by (auto simp: filter_empty_conv)
    with that(1) show ?thesis by (simp add: emptyCart_def)
  qed
  have e2: "emptyCart (Payload cid) c (snd (emptyCart (Payload cid) c d)) =
        (Response 400 (Text ''Unable to empty cart''),
         d\<lparr>shopping_cart := filter (\<lambda>r. cart_id r \<noteq> c) (shopping_cart d)\<rparr>)"
    if "truthy cid" "c \<in> cart_id ` set (shopping_cart d)"
  proof -
    have "c \<notin> cart_id ` set (shopping_cart
            (d\<lparr>shopping_cart := filter (\<lambda>r. cart_id r \<noteq> c) (shopping_cart d)\<rparr>))"
      by auto
    from b[OF this] show ?thesis by (simp add: e1[OF that])
  qed
  from a[of d] b[of d] c1 c2 r1 r2 e1 e2 show ?thesis by blast
qed

theorem deleting_nothing_is_answered_400_witness:
  "7 \<notin> item_id ` set (shopping_cart other_cart_db)
   \<and> ''abc123'' \<notin> cart_id ` set (shopping_cart other_cart_db)
   \<and> removeItemFromCart (Payload (Some 1)) 7 other_cart_db
       = (Response 400 (Text ''Unable to remove the item''), other_cart_db)
   \<and> emptyCart (Payload (Some 1)) ''abc123'' other_cart_db
       = (Response 400 (Text ''Unable to empty cart''), other_cart_db)
   \<and> truthy (Some 1) \<and> 1 \<in> item_id ` set (shopping_cart other_cart_db)
   \<and> ''other'' \<in> cart_id ` set (shopping_cart other_cart_db)
   \<and> fst (removeItemFromCart (Payload (Some 1)) 1 other_cart_db)
       = Response 200 (Message ''successfully removed the item'')
   \<and> shopping_cart (snd (removeItemFromCart (Payload (Some 1)) 1 other_cart_db)) = []
   \<and> fst (removeItemFromCart (Payload (Some 1)) 1
            (snd (removeItemFromCart (Payload (Some 1)) 1 other_cart_db)))
       = Response 400 (Text ''Unable to remove the item'')
   \<and> fst (emptyCart (Payload (Some 1)) ''other'' other_cart_db) = Response 200 (Items [])
   \<and> shopping_cart (snd (emptyCart (Payload (Some 1)) ''other'' other_cart_db)) = []"
proof -
  have h1: "7 \<notin> item_id ` set (shopping_cart other_cart_db)"
    by (simp add: other_cart_db_def)
  have h2: "''abc123'' \<notin> cart_id ` set (shopping_cart other_cart_db)"
    by (simp add: other_cart_db_def)
  have h3: "truthy (Some 1)" by simp
  have h4: "1 \<in> item_id ` set (shopping_cart other_cart_db)"
    by (simp add: other_cart_db_def)
  have h5: "''other'' \<in> cart_id ` set (shopping_cart other_cart_db)"
    by (simp add: other_cart_db_def)
  have f: "filter (\<lambda>r. item_id r \<noteq> 1) (shopping_cart other_cart_db) = []"
    "filter (\<lambda>r. cart_id r \<noteq> ''other'') (shopping_cart other_cart_db) = []"
    by (simp_all add: other_cart_db_def)
  from deleting_nothing_is_answered_400[of 7 other_cart_db "Some 1" "''abc123''"] h1 h2
  have n1: "removeItemFromCart (Payload (Some 1)) 7 other_cart_db
       = (Response 400 (Text ''Unable to remove the item''), other_cart_db)"
    and n2: "emptyCart (Payload (Some 1)) ''abc123'' other_cart_db
       = (Response 400 (Text ''Unable to empty cart''), other_cart_db)"
    by blast+
  from deleting_nothing_is_answered_400[of 1 other_cart_db "Some 1" "''other''"] h3 h4 h5
  have r1: "removeItemFromCart (Payload (Some 1)) 1 other_cart_db =
        (Response 200 (Message ''successfully removed the item''),
         other_cart_db\<lparr>shopping_cart :=
           filter (\<lambda>r. item_id r \<noteq> 1) (shopping_cart other_cart_db)\<rparr>)"
    and r2: "removeItemFromCart (Payload (Some 1)) 1
          (snd (removeItemFromCart (Payload (Some 1)) 1 other_cart_db)) =
        (Response 400 (Text ''Unable to remove the item''),
         other_cart_db\<lparr>shopping_cart :=
           filter (\<lambda>r. item_id r \<noteq> 1) (shopping_cart other_cart_db)\<rparr>)"
    and e1: "emptyCart (Payload (Some 1)) ''other'' other_cart_db =
        (Response 200 (Items []),
         other_cart_db\<lparr>shopping_cart :=
           filter (\<lambda>r. cart_id r \<noteq> ''other'') (shopping_cart other_cart_db)\<rparr>)"
    by blast+
  have g1: "fst (removeItemFromCart (Payload (Some 1)) 1 other_cart_db)
       = Response 200 (Message ''successfully removed the item'')"
    by (simp only: r1 fst_conv)
  have g2: "shopping_cart (snd (removeItemFromCart (Payload (Some 1)) 1 other_cart_db)) = []"
    unfolding r1 using f by simp
  have g3: "fst (removeItemFromCart (Payload (Some 1)) 1
            (snd (removeItemFromCart (Payload (Some 1)) 1 other_cart_db)))
       = Response 400 (Text ''Unable to remove the item'')"
    by (simp only: r2 fst_conv)
  have g4: "fst (emptyCart (Payload (Some 1)) ''other'' other_cart_db) = Response 200 (Items [])"
    by (simp only: e1 fst_conv)
  have g5: "shopping_cart (snd (emptyCart (Payload (Some 1)) ''other'' other_cart_db)) = []"
    unfolding e1 using f by simp
  from h1 h2 n1 n2 h3 h4 h5 g1 g2 g3 g4 g5 show ?thesis by blast
qed

section \<open>Properties of the product controller\<close>

subsection \<open>Pagination\<close>

text \<open>
  \<open>getAllProducts\<close> and \<open>searchProduct\<close> apply the defaults first: the offset is
  \<open>(page - 1) * limit\<close> with a page below 1 read as 1, and a missing limit is 20.
\<close>

lemma getAllProducts_pagination:
  "getAllProducts_sqlQueryMap (IntStr pg) (IntStr lim) = (Num ((max pg 1 - 1) * lim), Num lim)"
  "getAllProducts_sqlQueryMap (IntStr pg) Undefined = (Num ((max pg 1 - 1) * 20), Num 20)"
  "getAllProducts_sqlQueryMap Undefined Undefined = (Num 0, Num 20)"
  by (simp_all add: getAllProducts_sqlQueryMap_def Let_def max_def algebra_simps)

lemma searchProduct_pagination:
  "searchProduct_offset_limit (IntStr pg) (IntStr lim) = (Num ((max pg 1 - 1) * lim), Num lim)"
  "searchProduct_offset_limit (IntStr pg) Undefined = (Num ((max pg 1 - 1) * 20), Num 20)"
  "searchProduct_offset_limit Undefined Undefined = (Num 0, Num 20)"
  by (simp_all add: searchProduct_offset_limit_def Let_def max_def algebra_simps)

text \<open>
  Claim C6 does not hold of \<open>getProductsByCategory\<close> and \<open>getProductsByDepartment\<close>,
  which compute the offset before the defaults are applied. With \<open>page=0\<close> and
  \<open>limit=10\<close> the offset is \<open>-10\<close>, not \<open>0\<close>; with \<open>page=-5\<close> it is
  \<open>-60\<close>; with the limit omitted it is \<open>NaN\<close>. The query is then rejected, where
  \<open>getAllProducts\<close> on the same input asks for offset \<open>0\<close>.
\<close>

theorem category_offset_computed_before_defaults:
  "getProductsByCategory_offset_limit (IntStr 0) (IntStr 10) = (Num (- 10), Num 10)
   \<and> getProductsByCategory_offset_limit (IntStr (- 5)) (IntStr 10) = (Num (- 60), Num 10)
   \<and> getProductsByCategory_offset_limit (IntStr 1) Undefined = (NaN, Num 20)
   \<and> getProductsByDepartment_offset_limit (IntStr 0) (IntStr 10) = (Num (- 10), Num 10)
   \<and> getProductsByDepartment_offset_limit (IntStr 1) Undefined = (NaN, Num 20)
   \<and> getProductsByCategory 1 (IntStr 0) (IntStr 10) d = NextError
   \<and> getAllProducts_sqlQueryMap (IntStr 0) (IntStr 10) = (Num 0, Num 10)"
  by (simp add: getProductsByCategory_offset_limit_def getProductsByDepartment_offset_limit_def
      getProductsByCategory_def getAllProducts_sqlQueryMap_def)

subsection \<open>Search\<close>

lemma like_percent: "sql_like same [CHR ''%''] s"
  by (induction s) auto

lemma like_prefix:
  "wildcard_free t \<Longrightarrow> sql_like same (t @ [CHR ''%'']) s = starts_with same t s"
proof (induction t arbitrary: s)
  case Nil
  then show ?case by (simp add: like_percent)
next
  case (Cons x t)
  then have "wildcard_free t" and "x \<noteq> CHR ''%''" and "x \<noteq> CHR ''_''"
    by (simp_all add: wildcard_free_def)
  with Cons.IH[of "tl s"] show ?case by (cases s) auto
qed

lemma like_contains:
  "wildcard_free t \<Longrightarrow> sql_like same (CHR ''%'' # t @ [CHR ''%'']) s = appears_in same t s"
proof (induction s)
  case Nil
  then show ?case using like_prefix[of t same "[]"] by (cases t) auto
next
  case (Cons ch s)
  then show ?case using like_prefix[of t same "ch # s"] by simp
qed

text \<open>
  \<open>appears_in\<close> says that a piece of the name matches the term character by
  character; for a binary collation that is to be a contiguous sublist.
\<close>

lemma starts_with_iff:
  "starts_with same t s \<longleftrightarrow> (\<exists>m ss. s = m @ ss \<and> list_all2 same t m)"
proof (induction same t s rule: starts_with.induct)
  case (1 same s)
  then show ?case by simp
next
  case (2 same x xs)
  then show ?case by (simp add: list_all2_Cons1)
next
  case (3 same x xs y ys)
  show ?case
  proof
    assume "starts_with same (x # xs) (y # ys)"
    with 3 obtain m ss where "same x y" "ys = m @ ss" "list_all2 same xs m" by auto
    then have "y # ys = (y # m) @ ss \<and> list_all2 same (x # xs) (y # m)" by simp
    then show "\<exists>m ss. y # ys = m @ ss \<and> list_all2 same (x # xs) m" by blast
  next
    assume "\<exists>m ss. y # ys = m @ ss \<and> list_all2 same (x # xs) m"
    then obtain m ss where m: "y # ys = m @ ss" "list_all2 same (x # xs) m" by blast
    from m(2) obtain z zs where z: "m = z # zs" "same x z" "list_all2 same xs zs"
      by (auto simp: list_all2_Cons1)
    with m(1) have "z = y" "ys = zs @ ss" by simp_all
    with z 3 show "starts_with same (x # xs) (y # ys)" by auto
  qed
qed

lemma appears_in_iff:
  "appears_in same t s \<longleftrightarrow> (\<exists>ps m ss. s = ps @ m @ ss \<and> list_all2 same t m)"
proof (induction s)
  case Nil
  then show ?case by auto
next
  case (Cons y ys)
  show ?case
  proof
    assume "appears_in same t (y # ys)"
    then consider "starts_with same t (y # ys)" | "appears_in same t ys" by auto
    then show "\<exists>ps m ss. y # ys = ps @ m @ ss \<and> list_all2 same t m"
    proof cases
      case 1
      then obtain m ss where "y # ys = m @ ss" "list_all2 same t m"
        by (auto simp: starts_with_iff)
      then have "y # ys = [] @ m @ ss \<and> list_all2 same t m" by simp
      then show ?thesis by blast
    next
      case 2
      with Cons obtain ps m ss where "ys = ps @ m @ ss" "list_all2 same t m" by blast
      then have "y # ys = (y # ps) @ m @ ss \<and> list_all2 same t m" by simp
      then show ?thesis by blast
    qed
  next
    assume "\<exists>ps m ss. y # ys = ps @ m @ ss \<and> list_all2 same t m"
    then obtain ps m ss where m: "y # ys = ps @ m @ ss" "list_all2 same t m" by blast
    show "appears_in same t (y # ys)"
    proof (cases ps)
      case Nil
      with m have "starts_with same t (y # ys)" by (auto simp: starts_with_iff)
      then show ?thesis by simp
    next
      case (Cons p ps')
      with m have "ys = ps' @ m @ ss" by simp
      with m(2) Cons.IH have "appears_in same t ys" by blast
      then show ?thesis by simp
    qed
  qed
qed

lemma appears_in_binary: "appears_in (=) t s = sublist t s"
  by (auto simp: appears_in_iff sublist_def list_all2_eq[symmetric])

lemma split_from_chars: "w \<in> set (split_from cur s) \<Longrightarrow> set w \<subseteq> set cur \<union> set s"
proof (induction s arbitrary: cur)
  case Nil
  then show ?case by (simp split: if_splits)
next
  case (Cons ch s)
  show ?case
  proof (cases "separator ch")
    case True
    with Cons.prems have "w = cur \<or> w \<in> set (split_from [] s)"
      by (auto split: if_splits)
    then show ?thesis using Cons.IH[of "[]"] by auto
  next
    case False
    with Cons.prems have "w \<in> set (split_from (cur @ [ch]) s)" by simp
    from Cons.IH[OF this] show ?thesis by auto
  qed
qed

lemma split_words_wildcard_free:
  "wildcard_free s \<Longrightarrow> w \<in> set (split_words s) \<Longrightarrow> wildcard_free w"
  using split_from_chars[of w "[]" s]
  by (auto simp: wildcard_free_def split_words_def list_all_iff)

lemma split_from_terms:
  "w \<in> set (split_from cur s) \<Longrightarrow> \<forall>ch \<in> set cur. \<not> separator ch \<Longrightarrow>
   w \<noteq> [] \<and> (\<forall>ch \<in> set w. \<not> separator ch)"
proof (induction s arbitrary: cur)
  case Nil
  then show ?case by (simp split: if_splits)
next
  case (Cons ch s)
  show ?case
  proof (cases "separator ch")
    case True
    with Cons.prems(1) have "(w = cur \<and> cur \<noteq> []) \<or> w \<in> set (split_from [] s)"
      by (auto split: if_splits)
    then show ?thesis using Cons.IH[of "[]"] Cons.prems(2) by auto
  next
    case False
    with Cons.prems(1) have "w \<in> set (split_from (cur @ [ch]) s)" by simp
    from Cons.IH[OF this] False Cons.prems(2) show ?thesis by auto
  qed
qed

lemma split_words_terms:
  "w \<in> set (split_words s) \<Longrightarrow> w \<noteq> [] \<and> (\<forall>ch \<in> set w. \<not> separator ch)"
  using split_from_terms[of w "[]" s] by (simp add: split_words_def)

lemma name_or_contains:
  assumes "wildcard_free qs" and "split_words qs \<noteq> []"
  shows "name_or same e (map (\<lambda>w. CHR ''%'' # w @ [CHR ''%'']) (split_words qs)) nm
           = list_ex (\<lambda>w. appears_in same w nm) (split_words qs)"
proof -
  have "sql_like same (CHR ''%'' # w @ [CHR ''%'']) nm = appears_in same w nm"
    if "w \<in> set (split_words qs)" for w
    using like_contains[OF split_words_wildcard_free[OF assms(1) that]] by simp
  then show ?thesis using assms(2) by (simp add: name_or_def list_ex_iff)
qed

text \<open>
  Claim C7, as stated, fails in the mode that is to match all terms: the name
  \<open>red shirt\<close> contains both terms of the query \<open>shirt red\<close>, and the search
  with \<open>all_words=on\<close> returns no product, under a binary collation and under one
  that ignores case.
\<close>

theorem all_words_counterexample:
  "appears_in (=) ''shirt'' ''red shirt'' \<and> appears_in (=) ''red'' ''red shirt''
   \<and> split_words ''shirt red'' = [''shirt'', ''red'']
   \<and> searchProduct (=) False Undefined Undefined Undefined (Some ''on'') (Some ''shirt red'')
        shirt_db = Response 200 (Rows [])
   \<and> searchProduct (=) True Undefined Undefined Undefined (Some ''on'') (Some ''shirt red'')
        shirt_db = Response 200 (Rows [])
   \<and> searchProduct ignore_case False Undefined Undefined Undefined (Some ''on'')
        (Some ''shirt red'') shirt_db = Response 200 (Rows [])
   \<and> searchProduct ignore_case True Undefined Undefined Undefined (Some ''on'')
        (Some ''shirt red'') shirt_db = Response 200 (Rows [])"
  by (simp add: split_words_def separator_def searchProduct_def searchProduct_offset_limit_def
      shirt_db_def empty_db_def ignore_case_def lower_def)

text \<open>
  Claim C7, amended. For a query string without \<open>LIKE\<close> wildcards, with
  "contains" read as the collation of the database compares characters (ignoring case
  under the default collations):
  when \<open>all_words\<close> is anything but \<open>off\<close>, \<open>searchProduct\<close> does not split the
  query and returns the requested page (offset and limit as for \<open>getAllProducts\<close>) of
  the products whose name contains the whole query string as one contiguous piece;
  when \<open>all_words\<close> is \<open>off\<close> and the query has at least one term, it splits the
  query at spaces and commas and returns the requested page of the products whose name
  contains at least one term.
\<close>

theorem searchProduct_by_mode:
  assumes "wildcard_free qs"
  shows "(all_words \<noteq> Some ''off'' \<longrightarrow>
            searchProduct same e page limit dl all_words (Some qs) d =
              (case page_of (fst (searchProduct_offset_limit page limit))
                      (snd (searchProduct_offset_limit page limit))
                      (filter (\<lambda>p. appears_in same qs (p_name p)) (product d)) of
                 None \<Rightarrow> NextError
               | Some ps \<Rightarrow>
                   Response 200
                     (Rows (map (list_view (if falsy dl then NumV 200 else dl)) ps))))
       \<and> (split_words qs \<noteq> [] \<longrightarrow>
            searchProduct same e page limit dl (Some ''off'') (Some qs) d =
              (case page_of (fst (searchProduct_offset_limit page limit))
                      (snd (searchProduct_offset_limit page limit))
                      (filter (\<lambda>p. list_ex (\<lambda>w. appears_in same w (p_name p)) (split_words qs))
                         (product d)) of
                 None \<Rightarrow> NextError
               | Some ps \<Rightarrow>
                   Response 200
                     (Rows (map (list_view (if falsy dl then NumV 200 else dl)) ps))))"
proof -
  note like = like_contains[OF assms]
  have "searchProduct same e page limit dl all_words (Some qs) d =
              (case page_of (fst (searchProduct_offset_limit page limit))
                      (snd (searchProduct_offset_limit page limit))
                      (filter (\<lambda>p. appears_in same qs (p_name p)) (product d)) of
                 None \<Rightarrow> NextError
               | Some ps \<Rightarrow>
                   Response 200
                     (Rows (map (list_view (if falsy dl then NumV 200 else dl)) ps)))"
    if "all_words \<noteq> Some ''off''"
    using that by (simp add: searchProduct_def Let_def like split: prod.splits)
  moreover have "searchProduct same e page limit dl (Some ''off'') (Some qs) d =
              (case page_of (fst (searchProduct_offset_limit page limit))
                      (snd (searchProduct_offset_limit page limit))
                      (filter (\<lambda>p. list_ex (\<lambda>w. appears_in same w (p_name p)) (split_words qs))
                         (product d)) of
                 None \<Rightarrow> NextError
               | Some ps \<Rightarrow>
                   Response 200
                     (Rows (map (list_view (if falsy dl then NumV 200 else dl)) ps)))"
    if "split_words qs \<noteq> []"
    by (simp add: searchProduct_def Let_def name_or_contains[OF assms that] split: prod.splits)
  ultimately show ?thesis by blast
qed

theorem searchProduct_by_mode_witness:
  "wildcard_free ''SHIRT'' \<and> wildcard_free ''shirt red''
   \<and> Some ''on'' \<noteq> Some ''off'' \<and> split_words ''shirt red'' \<noteq> []
   \<and> searchProduct ignore_case False Undefined Undefined Undefined (Some ''on'') (Some ''SHIRT'')
        shirt_db
       = Response 200 (Rows [\<lparr>v_product_id = 1, v_name = ''red shirt'', v_description = ''cotton'',
                              v_price = 10, v_discounted_price = 0, v_thumbnail = []\<rparr>])
   \<and> searchProduct (=) False Undefined Undefined Undefined (Some ''on'') (Some ''SHIRT'') shirt_db
       = Response 200 (Rows [])
   \<and> searchProduct ignore_case False Undefined Undefined Undefined (Some ''on'')
        (Some ''shirt red'') shirt_db
       = Response 200 (Rows [])
   \<and> searchProduct ignore_case False Undefined Undefined Undefined (Some ''off'')
        (Some ''shirt red'') shirt_db
       = Response 200 (Rows [\<lparr>v_product_id = 1, v_name = ''red shirt'', v_description = ''cotton'',
                              v_price = 10, v_discounted_price = 0, v_thumbnail = []\<rparr>])"
proof -
  have h0: "wildcard_free ''SHIRT''" by (simp add: wildcard_free_def)
  have h1: "wildcard_free ''shirt red''" by (simp add: wildcard_free_def)
  have h2: "Some ''on'' \<noteq> Some ''off''" by simp
  have h3: "split_words ''shirt red'' \<noteq> []" by (simp add: split_words_def separator_def)
  have e0: "searchProduct ignore_case False Undefined Undefined Undefined (Some ''on'')
        (Some ''SHIRT'') shirt_db
       = Response 200 (Rows [\<lparr>v_product_id = 1, v_name = ''red shirt'', v_description = ''cotton'',
                              v_price = 10, v_discounted_price = 0, v_thumbnail = []\<rparr>])"
    by (simp add: searchProduct_def searchProduct_offset_limit_def shirt_db_def empty_db_def
        ignore_case_def lower_def list_view_def)
  have e0': "searchProduct (=) False Undefined Undefined Undefined (Some ''on'') (Some ''SHIRT'')
        shirt_db = Response 200 (Rows [])"
    by (simp add: searchProduct_def searchProduct_offset_limit_def shirt_db_def empty_db_def)
  have e1: "searchProduct ignore_case False Undefined Undefined Undefined (Some ''on'')
        (Some ''shirt red'') shirt_db = Response 200 (Rows [])"
    by (simp add: searchProduct_def searchProduct_offset_limit_def shirt_db_def empty_db_def
        ignore_case_def lower_def)
  have e2: "searchProduct ignore_case False Undefined Undefined Undefined (Some ''off'')
        (Some ''shirt red'') shirt_db
       = Response 200 (Rows [\<lparr>v_product_id = 1, v_name = ''red shirt'', v_description = ''cotton'',
                              v_price = 10, v_discounted_price = 0, v_thumbnail = []\<rparr>])"
    by (simp add: searchProduct_def searchProduct_offset_limit_def shirt_db_def empty_db_def
        split_words_def separator_def name_or_def list_view_def ignore_case_def lower_def)
  from searchProduct_by_mode[OF h0, of "Some ''on''" ignore_case False Undefined Undefined
         Undefined shirt_db]
       searchProduct_by_mode[OF h1, of "Some ''on''" ignore_case False Undefined Undefined
         Undefined shirt_db]
    h0 h1 h2 h3 e0 e0' e1 e2
  show ?thesis by blast
qed

section \<open>Properties of the customer controller\<close>

subsection \<open>Registration\<close>

lemma find_email_None:
  "email \<notin> cu_email ` set rows \<Longrightarrow> find (\<lambda>c. cu_email c = email) rows = None"
  by (auto simp: find_None_iff)

lemma find_email_Some:
  "email \<in> cu_email ` set rows \<Longrightarrow> \<exists>c. find (\<lambda>c. cu_email c = email) rows = Some c"
  by (cases "find (\<lambda>c. cu_email c = email) rows") (auto simp: find_None_iff)

text \<open>
  Claim C8. \<open>create\<close> with an email that a customer already has is answered 409 and
  leaves the tables as they are, so no second row is created. With a new email it adds one
  customer row whose password field holds \<open>hash password\<close> (and so not the password
  itself, whenever hashing changes it), and is answered 201 with the profile and a bearer
  credential that encodes the new customer id and expires after \<open>24h\<close>.
\<close>

theorem create_conflict_or_hashed_credential:
  "(email \<in> cu_email ` set (customer d) \<longrightarrow>
      create hashSync hash nm email password d =
        (Response 409 (Error 409 (''User with email '' @ email @ '' already exist'')), d))
   \<and> (email \<notin> cu_email ` set (customer d) \<longrightarrow>
      create hashSync hash nm email password d =
        (Response 201
           (Auth
              \<lparr>pr_customer_id = next_id (map cu_customer_id (customer d)), pr_name = nm,
               pr_email = email, pr_address_1 = None, pr_address_2 = None, pr_city = None,
               pr_region = None, pr_postal_code = None, pr_shipping_region_id = None,
               pr_credit_card = None, pr_day_phone = None, pr_eve_phone = None,
               pr_mob_phone = None\<rparr>
              (Bearer (next_id (map cu_customer_id (customer d))) ''24h'') ''24h''),
         d\<lparr>customer := customer d @
             [\<lparr>cu_customer_id = next_id (map cu_customer_id (customer d)),
               cu_name = nm, cu_email = email, cu_password = hash password,
               cu_address_1 = None, cu_address_2 = None, cu_city = None,
               cu_region = None, cu_postal_code = None, cu_shipping_region_id = None,
               cu_credit_card = None, cu_day_phone = None, cu_eve_phone = None,
               cu_mob_phone = None\<rparr>]\<rparr>))
   \<and> (email \<notin> cu_email ` set (customer d) \<and> hash password \<noteq> password \<longrightarrow>
      cu_password (last (customer (snd (create hashSync hash nm email password d)))) \<noteq> password)"
proof -
  have a: "create hashSync hash nm email password d =
        (Response 409 (Error 409 (''User with email '' @ email @ '' already exist'')), d)"
    if "email \<in> cu_email ` set (customer d)"
  proof -
    from find_email_Some[OF that] obtain c
      where "find (\<lambda>c. cu_email c = email) (customer d) = Some c" by blast
    then show ?thesis by (simp add: create_def Customer_findOrCreate_def)
  qed
  have b: "create hashSync hash nm email password d =
        (Response 201
           (Auth
              \<lparr>pr_customer_id = next_id (map cu_customer_id (customer d)), pr_name = nm,
               pr_email = email, pr_address_1 = None, pr_address_2 = None, pr_city = None,
               pr_region = None, pr_postal_code = None, pr_shipping_region_id = None,
               pr_credit_card = None, pr_day_phone = None, pr_eve_phone = None,
               pr_mob_phone = None\<rparr>
              (Bearer (next_id (map cu_customer_id (customer d))) ''24h'') ''24h''),
         d\<lparr>customer := customer d @
             [\<lparr>cu_customer_id = next_id (map cu_customer_id (customer d)),
               cu_name = nm, cu_email = email, cu_password = hash password,
               cu_address_1 = None, cu_address_2 = None, cu_city = None,
               cu_region = None, cu_postal_code = None, cu_shipping_region_id = None,
               cu_credit_card = None, cu_day_phone = None, cu_eve_phone = None,
               cu_mob_phone = None\<rparr>]\<rparr>)"
    if "email \<notin> cu_email ` set (customer d)"
    using find_email_None[OF that] by (simp add: create_def Customer_findOrCreate_def Let_def)
  have c: "cu_password (last (customer (snd (create hashSync hash nm email password d))))
             \<noteq> password"
    if "email \<notin> cu_email ` set (customer d)" "hash password \<noteq> password"
    using that(2) by (simp add: b[OF that(1)])
  from a b c show ?thesis by blast
qed

theorem create_conflict_or_hashed_credential_witness:
  "''alice@example.com'' \<in> cu_email ` set (customer alice_db)
   \<and> create (\<lambda>p n. toy_digest p) toy_digest ''Eve'' ''alice@example.com'' ''guess'' alice_db
       = (Response 409 (Error 409 ''User with email alice@example.com already exist''), alice_db)
   \<and> ''bob@example.com'' \<notin> cu_email ` set (customer alice_db)
   \<and> toy_digest ''secret'' \<noteq> ''secret''
   \<and> fst (create (\<lambda>p n. toy_digest p) toy_digest ''Bob'' ''bob@example.com'' ''secret'' alice_db)
       = Response 201
           (Auth
              \<lparr>pr_customer_id = 2, pr_name = ''Bob'',
               pr_email = ''bob@example.com'', pr_address_1 = None, pr_address_2 = None,
               pr_city = None, pr_region = None, pr_postal_code = None,
               pr_shipping_region_id = None, pr_credit_card = None, pr_day_phone = None,
               pr_eve_phone = None, pr_mob_phone = None\<rparr>
              (Bearer 2 ''24h'') ''24h'')
   \<and> map cu_password
         (customer (snd (create (\<lambda>p n. toy_digest p) toy_digest ''Bob'' ''bob@example.com''
            ''secret'' alice_db)))
       = [''#secret'', ''#secret'']
   \<and> map cu_email
         (customer (snd (create (\<lambda>p n. toy_digest p) toy_digest ''Bob'' ''bob@example.com''
            ''secret'' alice_db)))
       = [''alice@example.com'', ''bob@example.com'']"
proof -
  have h1: "''alice@example.com'' \<in> cu_email ` set (customer alice_db)"
    by (simp add: alice_db_def empty_db_def)
  have h2: "''bob@example.com'' \<notin> cu_email ` set (customer alice_db)"
    by (simp add: alice_db_def empty_db_def)
  have h3: "toy_digest ''secret'' \<noteq> ''secret''" by (simp add: toy_digest_def)
  have n: "next_id (map cu_customer_id (customer alice_db)) = 2"
    by (simp add: alice_db_def empty_db_def next_id_def)
  from create_conflict_or_hashed_credential[of "''alice@example.com''" alice_db
         "\<lambda>p n. toy_digest p" toy_digest "''Eve''" "''guess''"] h1
  have g1: "create (\<lambda>p n. toy_digest p) toy_digest ''Eve'' ''alice@example.com'' ''guess'' alice_db
       = (Response 409 (Error 409 ''User with email alice@example.com already exist''), alice_db)"
    by simp
  from create_conflict_or_hashed_credential[of "''bob@example.com''" alice_db
         "\<lambda>p n. toy_digest p" toy_digest "''Bob''" "''secret''"] h2
  have g: "create (\<lambda>p n. toy_digest p) toy_digest ''Bob'' ''bob@example.com'' ''secret'' alice_db =
        (Response 201
           (Auth
              \<lparr>pr_customer_id = next_id (map cu_customer_id (customer alice_db)), pr_name = ''Bob'',
               pr_email = ''bob@example.com'', pr_address_1 = None, pr_address_2 = None, pr_city = None,
               pr_region = None, pr_postal_code = None, pr_shipping_region_id = None,
               pr_credit_card = None, pr_day_phone = None, pr_eve_phone = None,
               pr_mob_phone = None\<rparr>
              (Bearer (next_id (map cu_customer_id (customer alice_db))) ''24h'') ''24h''),
         alice_db\<lparr>customer := customer alice_db @
             [\<lparr>cu_customer_id = next_id (map cu_customer_id (customer alice_db)),
               cu_name = ''Bob'', cu_email = ''bob@example.com'', cu_password = toy_digest ''secret'',
               cu_address_1 = None, cu_address_2 = None, cu_city = None,
               cu_region = None, cu_postal_code = None, cu_shipping_region_id = None,
               cu_credit_card = None, cu_day_phone = None, cu_eve_phone = None,
               cu_mob_phone = None\<rparr>]\<rparr>)"
    by blast
  have g2: "fst (create (\<lambda>p n. toy_digest p) toy_digest ''Bob'' ''bob@example.com'' ''secret'' alice_db)
       = Response 201
           (Auth
              \<lparr>pr_customer_id = 2, pr_name = ''Bob'',
               pr_email = ''bob@example.com'', pr_address_1 = None, pr_address_2 = None,
               pr_city = None, pr_region = None, pr_postal_code = None,
               pr_shipping_region_id = None, pr_credit_card = None, pr_day_phone = None,
               pr_eve_phone = None, pr_mob_phone = None\<rparr>
              (Bearer 2 ''24h'') ''24h'')"
    unfolding g n by simp
  have g3: "map cu_password
         (customer (snd (create (\<lambda>p n. toy_digest p) toy_digest ''Bob'' ''bob@example.com''
            ''secret'' alice_db)))
       = [''#secret'', ''#secret'']"
    unfolding g by (simp add: alice_db_def empty_db_def toy_digest_def)
  have g4: "map cu_email
         (customer (snd (create (\<lambda>p n. toy_digest p) toy_digest ''Bob'' ''bob@example.com''
            ''secret'' alice_db)))
       = [''alice@example.com'', ''bob@example.com'']"
    unfolding g by (simp add: alice_db_def empty_db_def)
  from h1 g1 h2 h3 g2 g3 g4 show ?thesis by blast
qed

text \<open>
  A customer registered through \<open>create\<close> can log in with the same password, when
  \<open>bcrypt.compareSync\<close> accepts a password against its own digest.
\<close>

lemma find_email_new:
  "email \<notin> cu_email ` set rows \<Longrightarrow> cu_email r = email \<Longrightarrow>
   find (\<lambda>c. cu_email c = email) (rows @ [r]) = Some r"
  by (induction rows) auto

lemma register_then_login:
  assumes "email \<notin> cu_email ` set (customer d)" and "compareSync password (hash password)"
  shows "login compareSync email password (snd (create hashSync hash nm email password d)) =
     Response 200
       (Auth
          \<lparr>pr_customer_id = next_id (map cu_customer_id (customer d)), pr_name = nm,
           pr_email = email, pr_address_1 = None, pr_address_2 = None, pr_city = None,
           pr_region = None, pr_postal_code = None, pr_shipping_region_id = None,
           pr_credit_card = None, pr_day_phone = None, pr_eve_phone = None,
           pr_mob_phone = None\<rparr>
          (Bearer (next_id (map cu_customer_id (customer d))) ''24h'') ''24h'')"
proof -
  show ?thesis
    using find_email_None[OF assms(1)] assms(2)
    by (simp add: create_def Customer_findOrCreate_def Let_def login_def
        find_email_new[OF assms(1)])
qed

subsection \<open>Login\<close>

text \<open>
  Claim C9, as stated, fails: an unknown email is answered 404 with
  \<open>User does not exist\<close>, a wrong password 401 with \<open>Incorrect password\<close>.
\<close>

theorem login_failures_counterexample:
  "login digest_matches ''bob@example.com'' ''secret'' alice_db
     = Response 404 (Error 404 ''User does not exist'')
   \<and> login digest_matches ''alice@example.com'' ''wrong'' alice_db
     = Response 401 (Message ''Incorrect password'')"
  by (simp add: login_def alice_db_def empty_db_def digest_matches_def)

text \<open>
  Claim C9, amended. \<open>login\<close> with an email that no customer has is answered with
  status 404 and the message \<open>User does not exist\<close>; with the email of a customer and
  a password that does not match the stored one, with status 401 and the message
  \<open>Incorrect password\<close>. The two failures differ in status and message.
\<close>

theorem login_failures:
  "(email \<notin> cu_email ` set (customer d) \<longrightarrow>
      login compareSync email password d = Response 404 (Error 404 ''User does not exist''))
   \<and> (find (\<lambda>c. cu_email c = email) (customer d) = Some c
        \<and> \<not> compareSync password (cu_password c) \<longrightarrow>
      login compareSync email password d = Response 401 (Message ''Incorrect password''))"
proof -
  have "find (\<lambda>c. cu_email c = email) (customer d) = None"
    if "email \<notin> cu_email ` set (customer d)"
    using that by (auto simp: find_None_iff)
  then show ?thesis by (simp add: login_def)
qed

theorem login_failures_witness:
  "''bob@example.com'' \<notin> cu_email ` set (customer alice_db)
   \<and> login digest_matches ''bob@example.com'' ''secret'' alice_db
       = Response 404 (Error 404 ''User does not exist'')
   \<and> find (\<lambda>c. cu_email c = ''alice@example.com'') (customer alice_db) = Some (hd (customer alice_db))
   \<and> \<not> digest_matches ''wrong'' (cu_password (hd (customer alice_db)))
   \<and> login digest_matches ''alice@example.com'' ''wrong'' alice_db
       = Response 401 (Message ''Incorrect password'')"
proof -
  have h1: "''bob@example.com'' \<notin> cu_email ` set (customer alice_db)"
    by (simp add: alice_db_def empty_db_def)
  have h2: "find (\<lambda>c. cu_email c = ''alice@example.com'') (customer alice_db)
      = Some (hd (customer alice_db))"
    by (simp add: alice_db_def empty_db_def)
  have h3: "\<not> digest_matches ''wrong'' (cu_password (hd (customer alice_db)))"
    by (simp add: alice_db_def empty_db_def digest_matches_def)
  from login_failures[of "''bob@example.com''" alice_db digest_matches "''secret''"]
       login_failures[of "''alice@example.com''" alice_db digest_matches "''wrong''"
         "hd (customer alice_db)"]
       h1 h2 h3
  show ?thesis by blast
qed

section \<open>Reviews\<close>

text \<open>
  Claim C10 does not hold of \<open>postProductReview\<close>: the review that the customer with id 2
  posts for product 1 is stored under customer id 1, and the review that the customer
  with id 3 then posts for the same product is answered 409.
\<close>

theorem review_is_filed_under_customer_1:
  "fst (postProductReview (Payload (Some 2)) 100 1 ''good'' 5 shirt_db) = Response 201 (Sent True)
   \<and> map rv_customer_id (review (snd (postProductReview (Payload (Some 2)) 100 1 ''good'' 5 shirt_db)))
       = [1]
   \<and> fst (postProductReview (Payload (Some 3)) 101 1 ''fine'' 4
            (snd (postProductReview (Payload (Some 2)) 100 1 ''good'' 5 shirt_db)))
       = Response 409 (Text ''You have already reviewed this product.'')"
  by (simp add: postProductReview_def shirt_db_def empty_db_def)

text \<open>The answer and the stored review are the same for every caller.\<close>

lemma postProductReview_ignores_token:
  "postProductReview tok now pid txt rating d = postProductReview tok' now pid txt rating d"
  by (simp add: postProductReview_def)

end
